theory Spec2Isabelle
  imports Main "HOL-Library.Sublist"
begin

section \<open>Python values shared by the modules\<close>

text \<open>
  A Python \<open>str\<close> is modelled as a \<open>string\<close>: a list of code points below 256.
  A JSON object (\<open>Dict[str, Any]\<close>) is an association list from keys to string
  values, read with \<open>map_of\<close> as \<open>dict.get\<close> reads it; a key that is absent or whose
  value is \<open>None\<close> is an absent key. A \<open>datetime\<close> is a number of microseconds,
  and \<open>datetime.now()\<close> is a parameter \<open>now\<close> of every operation that reads the clock.
  A raised \<open>Exception\<close> is the value \<open>Inl\<close> of its \<open>str()\<close>.
\<close>

type_synonym dict = "(string \<times> string) list"
type_synonym datetime = int
type_synonym exc = string

definition timedelta :: "int \<Rightarrow> int" where
  \<comment> \<open>\<open>timedelta(seconds=s)\<close>, in microseconds\<close>
  "timedelta s = s * 1000000"

definition truthy :: "string option \<Rightarrow> bool" where
  \<comment> \<open>\<open>bool(x)\<close> for \<open>x: Optional[str]\<close>\<close>
  "truthy x = (case x of None \<Rightarrow> False | Some s \<Rightarrow> s \<noteq> [])"

definition py_or :: "string option \<Rightarrow> string option \<Rightarrow> string option" where
  \<comment> \<open>\<open>x or y\<close>\<close>
  "py_or x y = (if truthy x then x else y)"

definition get_default :: "dict \<Rightarrow> string \<Rightarrow> string \<Rightarrow> string" where
  \<comment> \<open>\<open>d.get(k, default)\<close>\<close>
  "get_default d k dflt = (case map_of d k of None \<Rightarrow> dflt | Some v \<Rightarrow> v)"

section \<open>config/settings.py\<close>

definition API_BASE_URL :: string where
  \<comment> \<open>the fallback of the configuration lookup\<close>
  "API_BASE_URL = ''http://10.5.96.4:8000/api''"

definition API_TIMEOUT :: int where
  "API_TIMEOUT = 30"

definition TOKEN_REFRESH_THRESHOLD :: int where
  "TOKEN_REFRESH_THRESHOLD = 300"

definition get_api_endpoints :: "string \<Rightarrow> string option" where
  "get_api_endpoints = map_of
     [(''login'', API_BASE_URL @ ''/auth/login/''),
      (''refresh'', API_BASE_URL @ ''/auth/refresh/''),
      (''logout'', API_BASE_URL @ ''/auth/logout/''),
      (''send_email_auth'', API_BASE_URL @ ''/auth/send-email/''),
      (''verify_pin'', API_BASE_URL @ ''/auth/verify-pin/''),
      (''authentication_history'', API_BASE_URL @ ''/auth/history/''),
      (''merchants'', API_BASE_URL @ ''/merchants/merchants/''),
      (''merchant_search'', API_BASE_URL @ ''/merchants/merchants/''),
      (''verification_initiate'', API_BASE_URL @ ''/verification/initiate/''),
      (''verification_confirm'', API_BASE_URL @ ''/verification/confirm/''),
      (''health'', API_BASE_URL @ ''/verification/health/'')]"

definition endpoint :: "string \<Rightarrow> string" where
  \<comment> \<open>\<open>settings.get_api_endpoints()[k]\<close> for a key of the table\<close>
  "endpoint k = (case get_api_endpoints k of Some u \<Rightarrow> u | None \<Rightarrow> [])"

section \<open>api/base\_client.py\<close>

record ApiResponse =
  success :: bool
  data :: "dict option"
  error :: "string option"
  status_code :: "int option"

record AuthTokens =
  access_token :: string
  refresh_token :: string
  expires_at :: datetime

definition is_expired :: "datetime \<Rightarrow> AuthTokens \<Rightarrow> bool" where
  "is_expired now t = (now \<ge> expires_at t)"

definition needs_refresh :: "datetime \<Rightarrow> AuthTokens \<Rightarrow> bool" where
  "needs_refresh now t =
     (let threshold = timedelta TOKEN_REFRESH_THRESHOLD
      in now \<ge> expires_at t - threshold)"

text \<open>
  A registered callback is opaque code: it has a name and either returns or raises.
  What the HTTP session sends is a \<open>request\<close>; what \<open>session.request\<close>,
  \<open>raise_for_status\<close> and \<open>response.json()\<close> give back is a \<open>net_outcome\<close>,
  supplied by a parameter \<open>net\<close> (the remote system, retries of the transport adapter
  included). Every call of \<open>session.request\<close> is appended to \<open>net_log\<close>.
\<close>

record callback =
  cb_name :: string
  cb_raises :: bool

datatype cb_event = CbRan string | CbErrorLogged string

datatype jval = JStr string | JInt int

record request =
  req_method :: string
  req_url :: string
  req_json :: "(string \<times> jval) list"
  req_timeout :: int
  req_authorization :: "string option"

datatype net_outcome =
    NetOk int dict
      \<comment> \<open>2xx: status code and the parsed body (or \<open>{"message": text}\<close>)\<close>
  | NetHTTPError "int option" "dict option" string
      \<comment> \<open>\<open>HTTPError\<close>: the value of \<open>e.response.status_code if e.response else None\<close>,
          the error body when it parses, and \<open>str(e)\<close>\<close>
  | NetConnectionError
  | NetTimeout
  | NetRequestException string
  | NetRaises exc
      \<comment> \<open>any other \<open>Exception\<close>: not caught by \<open>_make_request\<close>\<close>

record BaseApiClient =
  shared_tokens :: "AuthTokens option"
  session_authorization :: "string option"
  on_token_refresh :: "callback list"
  on_logout :: "callback list"
  cb_log :: "cb_event list"
  net_log :: "request list"




definition update_auth_header :: "BaseApiClient \<Rightarrow> BaseApiClient" where
  "update_auth_header c =
     (case shared_tokens c of
        Some t \<Rightarrow> c\<lparr>session_authorization := Some (''Bearer '' @ access_token t)\<rparr>
      | None \<Rightarrow> c\<lparr>session_authorization := None\<rparr>)"



definition is_authenticated :: "datetime \<Rightarrow> BaseApiClient \<Rightarrow> bool" where
  "is_authenticated now c =
     (case shared_tokens c of None \<Rightarrow> False | Some t \<Rightarrow> \<not> is_expired now t)"

definition get_access_token :: "BaseApiClient \<Rightarrow> string option" where
  "get_access_token c = (case shared_tokens c of Some t \<Rightarrow> Some (access_token t) | None \<Rightarrow> None)"


definition make_url :: "string \<Rightarrow> string" where
  "make_url ep =
     (if prefix ''http://'' ep \<or> prefix ''https://'' ep then ep
      else API_BASE_URL @ ''/'' @ dropWhile (\<lambda>ch. ch = CHR ''/'') ep)"

definition http_error_message :: "dict option \<Rightarrow> string \<Rightarrow> string" where
  \<comment> \<open>\<open>error_data.get('detail') or error_data.get('error') or str(e)\<close>, and \<open>str(e)\<close> when
      the body does not parse\<close>
  "http_error_message body estr =
     (case body of
        None \<Rightarrow> estr
      | Some b \<Rightarrow> (case py_or (map_of b ''detail'') (py_or (map_of b ''error'') (Some estr)) of
                    Some m \<Rightarrow> m | None \<Rightarrow> estr))"

definition make_request ::
  "(request \<Rightarrow> net_outcome) \<Rightarrow> datetime \<Rightarrow> string \<Rightarrow> string \<Rightarrow> bool \<Rightarrow> (string \<times> jval) list
     \<Rightarrow> BaseApiClient \<Rightarrow> (exc + ApiResponse) \<times> BaseApiClient" where
  "make_request net now meth ep authenticated payload c =
     (let url = make_url ep in
      if authenticated \<and> \<not> is_authenticated now c then
        (Inr \<lparr>success = False, data = None, error = Some ''Authentication required'',
              status_code = Some 401\<rparr>, c)
      else
        let c1 = (if authenticated then update_auth_header c else c);
            req = \<lparr>req_method = meth, req_url = url, req_json = payload,
                   req_timeout = API_TIMEOUT, req_authorization = session_authorization c1\<rparr>;
            c2 = c1\<lparr>net_log := net_log c1 @ [req]\<rparr>
        in case net req of
             NetOk st d \<Rightarrow>
               (Inr \<lparr>success = True, data = Some d, error = None, status_code = Some st\<rparr>, c2)
           | NetHTTPError sc body estr \<Rightarrow>
               (Inr \<lparr>success = False, data = None, error = Some (http_error_message body estr),
                     status_code = sc\<rparr>, c2)
           | NetConnectionError \<Rightarrow>
               (Inr \<lparr>success = False, data = None,
                     error = Some ''Unable to connect to server. Please check your internet connection.'',
                     status_code = None\<rparr>, c2)
           | NetTimeout \<Rightarrow>
               (Inr \<lparr>success = False, data = None,
                     error = Some ''Request timed out. Please try again.'', status_code = None\<rparr>, c2)
           | NetRequestException estr \<Rightarrow>
               (Inr \<lparr>success = False, data = None, error = Some estr, status_code = None\<rparr>, c2)
           | NetRaises e \<Rightarrow> (Inl e, c2))"

definition get :: "(request \<Rightarrow> net_outcome) \<Rightarrow> datetime \<Rightarrow> string \<Rightarrow> (string \<times> jval) list
     \<Rightarrow> BaseApiClient \<Rightarrow> (exc + ApiResponse) \<times> BaseApiClient" where
  "get net now ep payload c = make_request net now ''GET'' ep True payload c"

definition post :: "(request \<Rightarrow> net_outcome) \<Rightarrow> datetime \<Rightarrow> string \<Rightarrow> (string \<times> jval) list
     \<Rightarrow> BaseApiClient \<Rightarrow> (exc + ApiResponse) \<times> BaseApiClient" where
  "post net now ep payload c = make_request net now ''POST'' ep True payload c"

definition put :: "(request \<Rightarrow> net_outcome) \<Rightarrow> datetime \<Rightarrow> string \<Rightarrow> (string \<times> jval) list
     \<Rightarrow> BaseApiClient \<Rightarrow> (exc + ApiResponse) \<times> BaseApiClient" where
  "put net now ep payload c = make_request net now ''PUT'' ep True payload c"

definition patch :: "(request \<Rightarrow> net_outcome) \<Rightarrow> datetime \<Rightarrow> string \<Rightarrow> (string \<times> jval) list
     \<Rightarrow> BaseApiClient \<Rightarrow> (exc + ApiResponse) \<times> BaseApiClient" where
  "patch net now ep payload c = make_request net now ''PATCH'' ep True payload c"

definition delete :: "(request \<Rightarrow> net_outcome) \<Rightarrow> datetime \<Rightarrow> string \<Rightarrow> (string \<times> jval) list
     \<Rightarrow> BaseApiClient \<Rightarrow> (exc + ApiResponse) \<times> BaseApiClient" where
  "delete net now ep payload c = make_request net now ''DELETE'' ep True payload c"

definition get_public :: "(request \<Rightarrow> net_outcome) \<Rightarrow> datetime \<Rightarrow> string \<Rightarrow> (string \<times> jval) list
     \<Rightarrow> BaseApiClient \<Rightarrow> (exc + ApiResponse) \<times> BaseApiClient" where
  "get_public net now ep payload c = make_request net now ''GET'' ep False payload c"


section \<open>api/auth\_client.py\<close>


section \<open>utils/validators.py\<close>

text \<open>
  Character classes on code points below 256: \<open>str.isdigit\<close> accepts the decimal
  digits and the superscripts two, three and one; \<open>int()\<close> and the pattern \<open>\d\<close> accept
  the decimal digits; \<open>str.strip\<close> and the pattern \<open>\s\<close> remove the white space of
  \<open>str.isspace\<close>. A pattern that ends in \<open>$\<close> also matches before one final newline.
\<close>

definition code :: "char \<Rightarrow> nat" where
  "code ch = of_char ch"

definition isdecimal_char :: "char \<Rightarrow> bool" where
  "isdecimal_char ch = (48 \<le> code ch \<and> code ch \<le> 57)"

definition isdigit_char :: "char \<Rightarrow> bool" where
  "isdigit_char ch = (isdecimal_char ch \<or> code ch = 178 \<or> code ch = 179 \<or> code ch = 185)"

definition isalpha_ascii :: "char \<Rightarrow> bool" where
  "isalpha_ascii ch = ((65 \<le> code ch \<and> code ch \<le> 90) \<or> (97 \<le> code ch \<and> code ch \<le> 122))"

definition ishex_char :: "char \<Rightarrow> bool" where
  "ishex_char ch = (isdecimal_char ch \<or> (65 \<le> code ch \<and> code ch \<le> 70)
                     \<or> (97 \<le> code ch \<and> code ch \<le> 102))"

definition isspace_char :: "char \<Rightarrow> bool" where
  "isspace_char ch = ((9 \<le> code ch \<and> code ch \<le> 13) \<or> (28 \<le> code ch \<and> code ch \<le> 32)
                      \<or> code ch = 133 \<or> code ch = 160)"

definition isdigit :: "string \<Rightarrow> bool" where
  "isdigit s = (s \<noteq> [] \<and> list_all isdigit_char s)"

definition strip :: "string \<Rightarrow> string" where
  "strip s = rev (dropWhile isspace_char (rev (dropWhile isspace_char s)))"

definition match_dollar :: "(string \<Rightarrow> bool) \<Rightarrow> string \<Rightarrow> bool" where
  "match_dollar shape s =
     (shape s \<or> (case rev s of ch # r \<Rightarrow> ch = CHR 0x0A \<and> shape (rev r) | [] \<Rightarrow> False))"

definition email_local_char :: "char \<Rightarrow> bool" where
  "email_local_char ch = (isalpha_ascii ch \<or> isdecimal_char ch \<or> ch \<in> set ''._%+-'')"

definition email_domain_char :: "char \<Rightarrow> bool" where
  "email_domain_char ch = (isalpha_ascii ch \<or> isdecimal_char ch \<or> ch \<in> set ''.-'')"

definition email_shape :: "string \<Rightarrow> bool" where
  \<comment> \<open>\<open>[a-zA-Z0-9._%+-]+@[a-zA-Z0-9.-]+\.[a-zA-Z]{2,}\<close>: the local part ends at the first
      \<open>@\<close>, the letters-only suffix starts after the last dot\<close>
  "email_shape s =
     (let local = takeWhile (\<lambda>ch. ch \<noteq> CHR ''@'') s;
          rest = dropWhile (\<lambda>ch. ch \<noteq> CHR ''@'') s
      in local \<noteq> [] \<and> list_all email_local_char local \<and>
         (case rest of
            [] \<Rightarrow> False
          | _ # dpart \<Rightarrow>
              (let tld = rev (takeWhile (\<lambda>ch. ch \<noteq> CHR ''.'') (rev dpart));
                   upto_dot = dropWhile (\<lambda>ch. ch \<noteq> CHR ''.'') (rev dpart)
               in case upto_dot of
                    [] \<Rightarrow> False
                  | _ # rhost \<Rightarrow> rhost \<noteq> [] \<and> list_all email_domain_char rhost \<and>
                                 2 \<le> length tld \<and> list_all isalpha_ascii tld)))"

definition validate_email :: "string \<Rightarrow> bool \<times> string" where
  "validate_email email =
     (if email = [] then (False, ''Email address is required'')
      else if \<not> match_dollar email_shape email then (False, ''Invalid email address format'')
      else if length email > 254 then (False, ''Email address is too long'')
      else (True, []))"

definition phone_shape :: "string \<Rightarrow> bool" where
  \<comment> \<open>\<open>\+?\d{10,15}\<close>\<close>
  "phone_shape s =
     (let body = (case s of ch # r \<Rightarrow> if ch = CHR ''+'' then r else s | [] \<Rightarrow> s)
      in 10 \<le> length body \<and> length body \<le> 15 \<and> list_all isdecimal_char body)"

definition validate_phone :: "string \<Rightarrow> bool \<times> string" where
  "validate_phone phone =
     (if phone = [] then (False, ''Phone number is required'')
      else
        let cleaned = filter (\<lambda>ch. \<not> (isspace_char ch \<or> ch \<in> set ''-().'')) phone in
        if \<not> match_dollar phone_shape cleaned
        then (False, ''Invalid phone number format (10-15 digits required)'')
        else (True, []))"

definition validate_pin :: "string \<Rightarrow> bool \<times> string" where
  "validate_pin pin =
     (if pin = [] then (False, ''PIN is required'')
      else if \<not> isdigit pin then (False, ''PIN must contain only digits'')
      else if length pin \<noteq> 6 then (False, ''PIN must be exactly 6 digits'')
      else (True, []))"

definition uuid_shape :: "string \<Rightarrow> bool" where
  \<comment> \<open>\<open>[0-9a-fA-F]{8}-[0-9a-fA-F]{4}-[0-9a-fA-F]{4}-[0-9a-fA-F]{4}-[0-9a-fA-F]{12}\<close>\<close>
  "uuid_shape s =
     (length s = 36 \<and>
      list_all (\<lambda>i. if i \<in> set [8, 13, 18, 23] then s ! i = CHR ''-'' else ishex_char (s ! i))
               [0..<36])"

fun no_double_underscore :: "string \<Rightarrow> bool" where
  "no_double_underscore (a # b # r) =
     (\<not> (a = CHR ''_'' \<and> b = CHR ''_'') \<and> no_double_underscore (b # r))"
| "no_double_underscore _ = True"

definition py_int :: "string \<Rightarrow> int option" where
  \<comment> \<open>\<open>int(s)\<close>: \<open>None\<close> is \<open>ValueError\<close>. White space around, one sign, decimal digits
      with single underscores between them, and at most 4300 digits (the interpreter's
      limit on the conversion of a decimal string)\<close>
  "py_int s =
     (let t = strip s;
          neg = (case t of ch # _ \<Rightarrow> ch = CHR ''-'' | [] \<Rightarrow> False);
          body = (case t of ch # r \<Rightarrow> if ch = CHR ''-'' \<or> ch = CHR ''+'' then r else t | [] \<Rightarrow> [])
      in case body of
           [] \<Rightarrow> None
         | b # _ \<Rightarrow>
             if list_all (\<lambda>ch. isdecimal_char ch \<or> ch = CHR ''_'') body \<and> b \<noteq> CHR ''_'' \<and>
                last body \<noteq> CHR ''_'' \<and> no_double_underscore body \<and>
                length (filter (\<lambda>ch. ch \<noteq> CHR ''_'') body) \<le> 4300
             then let v = foldl (\<lambda>acc ch. 10 * acc + (int (code ch) - 48)) 0
                                (filter (\<lambda>ch. ch \<noteq> CHR ''_'') body)
                  in Some (if neg then - v else v)
             else None)"

definition validate_merchant_id :: "string \<Rightarrow> bool \<times> string" where
  "validate_merchant_id merchant_id0 =
     (if merchant_id0 = [] then (False, ''Merchant ID is required'')
      else
        let merchant_id = strip merchant_id0 in
        if merchant_id = [] then (False, ''Merchant ID is required'')
        else if match_dollar uuid_shape merchant_id then (True, [])
        else case py_int merchant_id of
               Some int_id \<Rightarrow>
                 if int_id \<le> 0 then (False, ''Merchant ID must be a positive number'')
                 else (True, [])
             | None \<Rightarrow>
                 if length merchant_id > 50
                 then (False, ''Merchant ID is too long (max 50 characters)'')
                 else (True, []))"

section \<open>utils/error\_translator.py\<close>

definition ERROR_MESSAGES :: dict where
  "ERROR_MESSAGES =
     [(''invalid_credentials'', ''Invalid username or password''),
      (''invalid_token'', ''Your session has expired. Please log in again''),
      (''token_expired'', ''Your session has expired. Please log in again''),
      (''unauthorized'', ''You are not authorized to perform this action''),
      (''permission_denied'', ''You don'' @ [CHR 0x27] @ ''t have permission to access this resource''),
      (''invalid_pin'', ''The PIN code you entered is incorrect''),
      (''pin_expired'', ''This PIN code has expired. Please request a new one''),
      (''max_attempts_exceeded'', ''Maximum verification attempts exceeded. Please try again later''),
      (''verification_failed'', ''Verification failed. Please try again''),
      (''invalid_email'', ''Invalid email address format''),
      (''invalid_phone'', ''Invalid phone number format''),
      (''connection_error'', ''Unable to connect to server. Please check your internet connection''),
      (''timeout'', ''Request timed out. Please try again''),
      (''network_error'', ''Network error occurred. Please try again''),
      (''server_error'', ''Server error occurred. Please try again later''),
      (''bad_request'', ''Invalid request. Please check your input''),
      (''not_found'', ''Resource not found''),
      (''rate_limit_exceeded'', ''Too many requests. Please wait a moment and try again''),
      (''validation_error'', ''Please check your input and try again''),
      (''required_field'', ''This field is required''),
      (''invalid_format'', ''Invalid format. Please check your input''),
      (''websocket_error'', ''Real-time connection error. Updates may be delayed''),
      (''websocket_closed'', ''Real-time connection closed. Attempting to reconnect...'')]"

definition translate :: "string option \<Rightarrow> string" where
  \<comment> \<open>\<open>ErrorTranslator.translate(response.error)\<close>: the argument is a \<open>str\<close> or \<open>None\<close>\<close>
  "translate err =
     (case err of
        Some e \<Rightarrow> get_default ERROR_MESSAGES e ''An error occurred''
      | None \<Rightarrow> ''An error occurred'')"

section \<open>api/verification\_client.py\<close>

definition user_id_field :: "int option \<Rightarrow> (string \<times> jval) list" where
  "user_id_field user_id = (case user_id of Some u \<Rightarrow> [(''user_id'', JInt u)] | None \<Rightarrow> [])"

definition send_email_auth ::
  "(request \<Rightarrow> net_outcome) \<Rightarrow> datetime \<Rightarrow> string \<Rightarrow> string \<Rightarrow> int option
     \<Rightarrow> BaseApiClient \<Rightarrow> (exc + ApiResponse) \<times> BaseApiClient" where
  "send_email_auth net now email merchant_id user_id c =
     (if email = [] then
        (Inr \<lparr>success = False, data = None, error = Some ''Email address is required'',
              status_code = None\<rparr>, c)
      else if merchant_id = [] then
        (Inr \<lparr>success = False, data = None, error = Some ''Merchant ID is required'',
              status_code = None\<rparr>, c)
      else post net now (endpoint ''send_email_auth'')
             ([(''email'', JStr email), (''merchant_id'', JStr merchant_id)] @ user_id_field user_id) c)"

definition verify_pin ::
  "(request \<Rightarrow> net_outcome) \<Rightarrow> datetime \<Rightarrow> string \<Rightarrow> string \<Rightarrow> int option
     \<Rightarrow> BaseApiClient \<Rightarrow> (exc + ApiResponse) \<times> BaseApiClient" where
  "verify_pin net now pin merchant_id user_id c =
     (if pin = [] \<or> length pin \<noteq> 6 \<or> \<not> isdigit pin then
        (Inr \<lparr>success = False, data = None, error = Some ''PIN must be 6 digits'',
              status_code = None\<rparr>, c)
      else if merchant_id = [] then
        (Inr \<lparr>success = False, data = None, error = Some ''Merchant ID is required'',
              status_code = None\<rparr>, c)
      else post net now (endpoint ''verify_pin'')
             ([(''pin'', JStr pin), (''merchant_id'', JStr merchant_id)] @ user_id_field user_id) c)"

definition initiate_sms_verification ::
  "(request \<Rightarrow> net_outcome) \<Rightarrow> datetime \<Rightarrow> string \<Rightarrow> string
     \<Rightarrow> BaseApiClient \<Rightarrow> (exc + ApiResponse) \<times> BaseApiClient" where
  "initiate_sms_verification net now merchant_id phone c =
     post net now (endpoint ''verification_initiate'')
       [(''merchant_id'', JStr merchant_id), (''verification_method'', JStr ''sms''),
        (''delivery_address'', JStr phone)] c"

definition confirm_sms_verification ::
  "(request \<Rightarrow> net_outcome) \<Rightarrow> datetime \<Rightarrow> string \<Rightarrow> string
     \<Rightarrow> BaseApiClient \<Rightarrow> (exc + ApiResponse) \<times> BaseApiClient" where
  "confirm_sms_verification net now sid vcode c =
     (if vcode = [] \<or> sid = [] then
        (Inr \<lparr>success = False, data = None, error = Some ''session_id and code are required'',
              status_code = None\<rparr>, c)
      else post net now (endpoint ''verification_confirm'')
             [(''session_id'', JStr sid), (''verification_code'', JStr vcode)] c)"

section \<open>core/app\_signals.py and state/verification\_state.py\<close>

datatype app_signal =
    Verification_completed bool string string
  | Pin_sent string
  | Sms_sent string
  | Merchant_search_cleared
  | Status_message string string

record verification_info =
  customer_id :: string
  info_method :: string
  info_started_at :: datetime

record VerificationState =
  current_verification :: "verification_info option"
  verification_status :: string
  current_token :: "string option"
  current_auth_id :: "string option"
  verification_method :: "string option"
  attempts_count :: int
  max_attempts :: int
  started_at :: "datetime option"

definition VerificationState_init :: VerificationState where
  "VerificationState_init =
     \<lparr>current_verification = None, verification_status = ''idle'', current_token = None,
      current_auth_id = None, verification_method = None, attempts_count = 0,
      max_attempts = 5, started_at = None\<rparr>"

definition start_verification ::
  "datetime \<Rightarrow> string \<Rightarrow> string \<Rightarrow> string option \<Rightarrow> string option
     \<Rightarrow> VerificationState \<Rightarrow> VerificationState" where
  "start_verification now cid meth token auth vs =
     vs\<lparr>current_verification :=
          Some \<lparr>customer_id = cid, info_method = meth, info_started_at = now\<rparr>,
        verification_status := ''in_progress'',
        current_token := token,
        current_auth_id := auth,
        verification_method := Some meth,
        attempts_count := 0,
        started_at := Some now\<rparr>"

definition reset_state :: "VerificationState \<Rightarrow> VerificationState" where
  "reset_state vs =
     vs\<lparr>current_verification := None, verification_status := ''idle'', current_token := None,
        current_auth_id := None, verification_method := None, attempts_count := 0,
        started_at := None\<rparr>"

definition update_status :: "string \<Rightarrow> VerificationState \<Rightarrow> VerificationState" where
  "update_status status vs = vs\<lparr>verification_status := status\<rparr>"

definition increment_attempts :: "VerificationState \<Rightarrow> VerificationState" where
  "increment_attempts vs = vs\<lparr>attempts_count := attempts_count vs + 1\<rparr>"

definition is_max_attempts_reached :: "VerificationState \<Rightarrow> bool" where
  "is_max_attempts_reached vs = (attempts_count vs \<ge> max_attempts vs)"

definition get_status :: "VerificationState \<Rightarrow> string" where
  "get_status vs = verification_status vs"

definition get_auth_id :: "VerificationState \<Rightarrow> string option" where
  "get_auth_id vs = current_auth_id vs"

definition get_attempts :: "VerificationState \<Rightarrow> int" where
  "get_attempts vs = attempts_count vs"

definition is_active :: "VerificationState \<Rightarrow> bool" where
  "is_active vs = (current_verification vs \<noteq> None)"

text \<open>
  The singletons the service works on: the verification client (with the shared token
  pair), the verification state, and the signals emitted on the application's signal hub,
  in order.
\<close>

record world =
  client :: BaseApiClient
  vstate :: VerificationState
  signals :: "app_signal list"

definition complete_verification :: "bool \<Rightarrow> string \<Rightarrow> world \<Rightarrow> world" where
  \<comment> \<open>the dictionary of a running verification has three keys, so \<open>not
      self._current_verification\<close> holds exactly when it is \<open>None\<close>\<close>
  "complete_verification ok msg w =
     (case current_verification (vstate w) of
        None \<Rightarrow> w
      | Some _ \<Rightarrow>
          let auth = current_auth_id (vstate w);
              vs1 = (vstate w)\<lparr>verification_status := (if ok then ''completed'' else ''failed'')\<rparr>;
              vs2 = reset_state vs1
          in w\<lparr>vstate := vs2,
               signals := signals w @
                 [Verification_completed ok msg (case auth of Some a \<Rightarrow> a | None \<Rightarrow> [])]\<rparr>)"

section \<open>services/verification\_service.py\<close>

record VerificationResult =
  vr_success :: bool
  message :: string
  auth_id :: "string option"
  session_id :: "string option"
  vr_data :: "dict option"

definition failure :: "string \<Rightarrow> VerificationResult" where
  \<comment> \<open>\<open>VerificationResult(success=False, message=msg)\<close>\<close>
  "failure msg = \<lparr>vr_success = False, message = msg, auth_id = None, session_id = None,
                   vr_data = None\<rparr>"

definition str_of :: "string option \<Rightarrow> string" where
  \<comment> \<open>\<open>str(x)\<close> for \<open>x: Optional[str]\<close>\<close>
  "str_of x = (case x of Some s \<Rightarrow> s | None \<Rightarrow> ''None'')"

definition data_or_empty :: "ApiResponse \<Rightarrow> dict" where
  \<comment> \<open>\<open>response.data or {}\<close>\<close>
  "data_or_empty response = (case data response of Some d \<Rightarrow> d | None \<Rightarrow> [])"

definition start_email_verification ::
  "(request \<Rightarrow> net_outcome) \<Rightarrow> datetime \<Rightarrow> dict \<Rightarrow> int \<Rightarrow> world
     \<Rightarrow> (exc + VerificationResult) \<times> world" where
  "start_email_verification net now merchant_data user_id w =
     (let merchant_id = map_of merchant_data ''merchant_id'';
          email = py_or (map_of merchant_data ''contact_email'') (map_of merchant_data ''email'')
      in
      if \<not> truthy merchant_id then (Inr (failure ''Merchant ID (UUID) is required''), w)
      else if \<not> fst (validate_merchant_id (str_of merchant_id))
        then (Inr (failure (snd (validate_merchant_id (str_of merchant_id)))), w)
      else if \<not> truthy email then (Inr (failure ''Merchant email is required''), w)
      else if \<not> fst (validate_email (str_of email))
        then (Inr (failure (snd (validate_email (str_of email)))), w)
      else
        case send_email_auth net now (str_of email) (str_of merchant_id) (Some user_id) (client w) of
          (Inl e, c1) \<Rightarrow> (Inl e, w\<lparr>client := c1\<rparr>)
        | (Inr response, c1) \<Rightarrow>
            if success response then
              let d = data_or_empty response;
                  auth = map_of d ''auth_id'';
                  vs = start_verification now (str_of merchant_id) ''email'' None auth (vstate w)
              in (Inr \<lparr>vr_success = True,
                        message = get_default d ''message'' ''Email verification sent successfully'',
                        auth_id = auth, session_id = None, vr_data = Some d\<rparr>,
                  w\<lparr>client := c1, vstate := vs\<rparr>)
            else (Inr (failure (translate (error response))), w\<lparr>client := c1\<rparr>))"

definition verify_pin_code ::
  "(request \<Rightarrow> net_outcome) \<Rightarrow> datetime \<Rightarrow> string \<Rightarrow> string option \<Rightarrow> int \<Rightarrow> world
     \<Rightarrow> (exc + VerificationResult) \<times> world" where
  "verify_pin_code net now pin merchant_id user_id w =
     (if \<not> fst (validate_pin pin) then (Inr (failure (snd (validate_pin pin))), w)
      else if \<not> truthy merchant_id then (Inr (failure ''Merchant ID is required''), w)
      else if is_max_attempts_reached (vstate w)
        then (Inr (failure ''Maximum verification attempts exceeded''), w)
      else
        let w1 = w\<lparr>vstate := increment_attempts (vstate w)\<rparr> in
        case verify_pin net now pin (str_of merchant_id) (Some user_id) (client w1) of
          (Inl e, c1) \<Rightarrow> (Inl e, w1\<lparr>client := c1\<rparr>)
        | (Inr response, c1) \<Rightarrow>
            if success response then
              let d = data_or_empty response;
                  auth = map_of d ''auth_id'';
                  w2 = complete_verification True ''PIN verified successfully'' (w1\<lparr>client := c1\<rparr>)
              in (Inr \<lparr>vr_success = True,
                        message = get_default d ''message'' ''PIN verified successfully'',
                        auth_id = auth, session_id = None, vr_data = Some d\<rparr>, w2)
            else
              let err = translate (error response) in
              (Inr (failure err),
               w1\<lparr>client := c1, vstate := update_status ''failed_attempt'' (vstate w1)\<rparr>))"

definition start_sms_verification ::
  "(request \<Rightarrow> net_outcome) \<Rightarrow> datetime \<Rightarrow> dict \<Rightarrow> int \<Rightarrow> world
     \<Rightarrow> (exc + VerificationResult) \<times> world" where
  "start_sms_verification net now merchant_data user_id w =
     (let merchant_id = map_of merchant_data ''merchant_id'';
          phone = py_or (map_of merchant_data ''contact_phone'') (map_of merchant_data ''phone'')
      in
      if \<not> truthy merchant_id then (Inr (failure ''Merchant ID (UUID) is required''), w)
      else if \<not> truthy phone then (Inr (failure ''Merchant phone is required''), w)
      else if \<not> fst (validate_phone (str_of phone))
        then (Inr (failure (snd (validate_phone (str_of phone)))), w)
      else
        case initiate_sms_verification net now (str_of merchant_id) (str_of phone) (client w) of
          (Inl e, c1) \<Rightarrow> (Inl e, w\<lparr>client := c1\<rparr>)
        | (Inr response, c1) \<Rightarrow>
            if success response then
              let d = data_or_empty response;
                  sid = map_of d ''session_id'';
                  vs = start_verification now (str_of merchant_id) ''sms'' None sid (vstate w)
              in (Inr \<lparr>vr_success = True,
                        message = get_default d ''message'' ''SMS verification sent successfully'',
                        auth_id = sid, session_id = sid, vr_data = Some d\<rparr>,
                  w\<lparr>client := c1, vstate := vs\<rparr>)
            else (Inr (failure (translate (error response))), w\<lparr>client := c1\<rparr>))"

definition verify_sms_code ::
  "(request \<Rightarrow> net_outcome) \<Rightarrow> datetime \<Rightarrow> string \<Rightarrow> string option \<Rightarrow> world
     \<Rightarrow> (exc + VerificationResult) \<times> world" where
  "verify_sms_code net now vcode sid w =
     (if vcode = [] then (Inr (failure ''Verification code is required''), w)
      else if \<not> truthy sid then (Inr (failure ''Session ID is required''), w)
      else
        case confirm_sms_verification net now (str_of sid) vcode (client w) of
          (Inl e, c1) \<Rightarrow> (Inl e, w\<lparr>client := c1\<rparr>)
        | (Inr response, c1) \<Rightarrow>
            if success response then
              let d = data_or_empty response;
                  w2 = complete_verification True ''SMS verified'' (w\<lparr>client := c1\<rparr>)
              in (Inr \<lparr>vr_success = True,
                        message = get_default d ''message'' ''SMS verified successfully'',
                        auth_id = sid, session_id = None, vr_data = Some d\<rparr>, w2)
            else (Inr (failure (translate (error response))), w\<lparr>client := c1\<rparr>))"

definition cancel_session :: "world \<Rightarrow> bool \<times> world" where
  "cancel_session w =
     (if \<not> is_active (vstate w) then (False, w)
      else (True, complete_verification False ''Cancelled by user'' w))"

section \<open>utils/threading\_utils.py\<close>

text \<open>
  What a call of the wrapped operation does: it returns a value, it raises an
  \<open>Exception\<close>, or it raises a \<open>BaseException\<close> that is not an \<open>Exception\<close>
  (\<open>SystemExit\<close>, \<open>KeyboardInterrupt\<close>, \<open>GeneratorExit\<close>); an exception is carried as its
  \<open>str()\<close>. The operations of the services raise nothing but \<open>Exception\<close>s:
  \<open>as_task\<close> turns one into a worker's operation.
\<close>

datatype 'a call_outcome = Returns 'a | RaisesException string | RaisesBaseException string

datatype 'a worker_signal = Result 'a | Error string | Finished

definition run ::
  "('s \<Rightarrow> 'a call_outcome \<times> 's) \<Rightarrow> 's \<Rightarrow> ('a worker_signal list \<times> string option) \<times> 's" where
  \<comment> \<open>\<open>ApiWorker.run\<close>: \<open>fn\<close> with its arguments is a state transformer. The result is
      the signals in the order of their \<open>emit\<close>, and the exception that leaves \<open>run\<close>, if
      one does: \<open>except Exception\<close> does not catch the third outcome, \<open>finally\<close> runs in
      all three\<close>
  "run fn s =
     (let (outcome, s1) = fn s;
          emitted = (case outcome of
                       Returns result \<Rightarrow> [Result result]
                     | RaisesException e \<Rightarrow> [Error e]
                     | RaisesBaseException b \<Rightarrow> []);
          escaped = (case outcome of
                       Returns result \<Rightarrow> None
                     | RaisesException e \<Rightarrow> None
                     | RaisesBaseException b \<Rightarrow> Some b)
      in ((emitted @ [Finished], escaped), s1))"

definition as_task :: "('s \<Rightarrow> (exc + 'a) \<times> 's) \<Rightarrow> 's \<Rightarrow> 'a call_outcome \<times> 's" where
  "as_task op s =
     (case op s of
        (Inr result, s1) \<Rightarrow> (Returns result, s1)
      | (Inl e, s1) \<Rightarrow> (RaisesException e, s1))"

section \<open>ui/panels/email\_verification\_panel.py\<close>

text \<open>
  Of a panel, the workflow fields are modelled; the widgets it renders are not. A slot
  works on the panel and on the \<open>world\<close> of the singletons. A dispatched worker is run
  to its end and its signals are delivered to the connected slots before the next event
  of the panel; no slot is connected to \<open>finished\<close>.
\<close>

datatype State = IDLE | SELECTED | SENDING | AWAITING_CODE | VERIFYING | COMPLETE | FAILED

definition dict_truthy :: "dict option \<Rightarrow> bool" where
  \<comment> \<open>\<open>bool(d)\<close> for \<open>d: Optional[Dict]\<close>\<close>
  "dict_truthy d = (case d of None \<Rightarrow> False | Some kvs \<Rightarrow> kvs \<noteq> [])"

definition user_id_of :: "(string \<times> int) list \<Rightarrow> int" where
  \<comment> \<open>\<open>user_data.get('id') or user_data.get('user_id', 0)\<close>\<close>
  "user_id_of ud =
     (let other = (case map_of ud ''user_id'' of Some u \<Rightarrow> u | None \<Rightarrow> 0)
      in case map_of ud ''id'' of Some v \<Rightarrow> if v \<noteq> 0 then v else other | None \<Rightarrow> other)"

fun deliver ::
  "('a \<Rightarrow> 'st \<Rightarrow> 'st) \<Rightarrow> (string \<Rightarrow> 'st \<Rightarrow> 'st) \<Rightarrow> 'a worker_signal list \<Rightarrow> 'st \<Rightarrow> 'st" where
  "deliver on_result on_error [] st = st"
| "deliver on_result on_error (Result r # sigs) st = deliver on_result on_error sigs (on_result r st)"
| "deliver on_result on_error (Error e # sigs) st = deliver on_result on_error sigs (on_error e st)"
| "deliver on_result on_error (Finished # sigs) st = deliver on_result on_error sigs st"

definition emit :: "app_signal list \<Rightarrow> world \<Rightarrow> world" where
  "emit sigs w = w\<lparr>signals := signals w @ sigs\<rparr>"

record EmailVerificationPanel =
  e_user_data :: "(string \<times> int) list"
  e_selected_merchant :: "dict option"
  e_current_merchant_id :: "string option"
  e_state :: State

definition EmailVerificationPanel_init :: EmailVerificationPanel where
  "EmailVerificationPanel_init =
     \<lparr>e_user_data = [], e_selected_merchant = None, e_current_merchant_id = None, e_state = IDLE\<rparr>"

definition e_transition :: "State \<Rightarrow> EmailVerificationPanel \<Rightarrow> EmailVerificationPanel" where
  "e_transition new_state p = p\<lparr>e_state := new_state\<rparr>"

definition e_set_user_data :: "(string \<times> int) list \<Rightarrow> EmailVerificationPanel \<Rightarrow> EmailVerificationPanel" where
  "e_set_user_data ud p = p\<lparr>e_user_data := ud\<rparr>"

definition e_on_merchant_selected :: "dict \<Rightarrow> EmailVerificationPanel \<Rightarrow> EmailVerificationPanel" where
  "e_on_merchant_selected merchant p =
     e_transition SELECTED
       (p\<lparr>e_selected_merchant := Some merchant,
          e_current_merchant_id := map_of merchant ''merchant_id''\<rparr>)"

definition e_on_send_result ::
  "VerificationResult \<Rightarrow> EmailVerificationPanel \<times> world \<Rightarrow> EmailVerificationPanel \<times> world" where
  "e_on_send_result result pw =
     (case pw of (p, w) \<Rightarrow>
        if vr_success result
        then (e_transition AWAITING_CODE p,
              emit [Pin_sent (case auth_id result of Some a \<Rightarrow> a | None \<Rightarrow> [])] w)
        else (e_transition SELECTED p, emit [Status_message (message result) ''error''] w))"

definition e_on_send_error ::
  "string \<Rightarrow> EmailVerificationPanel \<times> world \<Rightarrow> EmailVerificationPanel \<times> world" where
  "e_on_send_error error_msg pw = (case pw of (p, w) \<Rightarrow> (e_transition SELECTED p, w))"

definition e_on_send_clicked ::
  "(request \<Rightarrow> net_outcome) \<Rightarrow> datetime \<Rightarrow> EmailVerificationPanel \<times> world
     \<Rightarrow> EmailVerificationPanel \<times> world" where
  "e_on_send_clicked net now pw =
     (case pw of (p, w) \<Rightarrow>
        (case e_selected_merchant p of
           None \<Rightarrow> (p, w)
         | Some merchant \<Rightarrow>
             if merchant = [] then (p, w)
             else
               let p1 = e_transition SENDING p;
                   user_id = user_id_of (e_user_data p1);
                   ((sigs, escaped), w1) =
                     run (as_task (start_email_verification net now merchant user_id)) w
               in deliver e_on_send_result e_on_send_error sigs (p1, w1)))"

definition e_on_pin_verified ::
  "string \<Rightarrow> EmailVerificationPanel \<times> world \<Rightarrow> EmailVerificationPanel \<times> world" where
  "e_on_pin_verified auth pw =
     (case pw of (p, w) \<Rightarrow>
        ((e_transition COMPLETE p)\<lparr>e_selected_merchant := None, e_current_merchant_id := None\<rparr>,
         emit [Verification_completed True ''PIN verified successfully'' auth,
               Status_message ''Verification complete!'' ''success'',
               Merchant_search_cleared] w))"

definition e_on_verify_result ::
  "VerificationResult \<Rightarrow> EmailVerificationPanel \<times> world \<Rightarrow> EmailVerificationPanel \<times> world" where
  "e_on_verify_result result pw =
     (case pw of (p, w) \<Rightarrow>
        if vr_success result
        then e_on_pin_verified (case auth_id result of Some a \<Rightarrow> a | None \<Rightarrow> []) (p, w)
        else (e_transition AWAITING_CODE p, emit [Status_message (message result) ''error''] w))"

definition e_on_verify_error ::
  "string \<Rightarrow> EmailVerificationPanel \<times> world \<Rightarrow> EmailVerificationPanel \<times> world" where
  "e_on_verify_error error_msg pw = (case pw of (p, w) \<Rightarrow> (e_transition AWAITING_CODE p, w))"

definition e_submit_pin ::
  "(request \<Rightarrow> net_outcome) \<Rightarrow> datetime \<Rightarrow> string \<Rightarrow> EmailVerificationPanel \<times> world
     \<Rightarrow> EmailVerificationPanel \<times> world" where
  "e_submit_pin net now pin pw =
     (case pw of (p, w) \<Rightarrow>
        if e_state p \<noteq> AWAITING_CODE then (p, w)
        else
          let p1 = e_transition VERIFYING p;
              user_id = user_id_of (e_user_data p1);
              ((sigs, escaped), w1) =
                run (as_task (verify_pin_code net now pin (e_current_merchant_id p1) user_id)) w
          in deliver e_on_verify_result e_on_verify_error sigs (p1, w1))"

definition e_on_pin_auto_entered ::
  "(request \<Rightarrow> net_outcome) \<Rightarrow> datetime \<Rightarrow> string \<Rightarrow> EmailVerificationPanel \<times> world
     \<Rightarrow> EmailVerificationPanel \<times> world" where
  "e_on_pin_auto_entered net now pin pw =
     (if e_state (fst pw) = AWAITING_CODE then e_submit_pin net now pin pw else pw)"

definition e_on_verify_clicked ::
  "(request \<Rightarrow> net_outcome) \<Rightarrow> datetime \<Rightarrow> string \<Rightarrow> EmailVerificationPanel \<times> world
     \<Rightarrow> EmailVerificationPanel \<times> world" where
  \<comment> \<open>\<open>pin\<close> is the text of the PIN widget\<close>
  "e_on_verify_clicked net now pin pw =
     (if length pin \<noteq> 6 then pw else e_submit_pin net now pin pw)"

definition e_on_ws_update ::
  "dict \<Rightarrow> EmailVerificationPanel \<times> world \<Rightarrow> EmailVerificationPanel \<times> world" where
  "e_on_ws_update msg pw =
     (case pw of (p, w) \<Rightarrow>
        let status = get_default msg ''status'' [] in
        if status \<in> set [''verified'', ''completed'', ''success''] then
          (if e_state p = AWAITING_CODE
           then e_on_pin_verified (get_default msg ''auth_id'' []) (p, w)
           else (p, w))
        else if status \<in> set [''failed'', ''expired''] then
          (if e_state p = AWAITING_CODE \<or> e_state p = VERIFYING
           then (e_transition FAILED p, w)
           else (p, w))
        else (p, w))"

definition e_on_cancel_clicked ::
  "EmailVerificationPanel \<times> world \<Rightarrow> EmailVerificationPanel \<times> world" where
  "e_on_cancel_clicked pw =
     (case pw of (p, w) \<Rightarrow>
        let w1 = snd (cancel_session w) in
        (e_transition (if dict_truthy (e_selected_merchant p) then SELECTED else IDLE) p, w1))"

section \<open>ui/panels/sms\_verification\_panel.py\<close>

record SmsVerificationPanel =
  s_user_data :: "(string \<times> int) list"
  s_selected_merchant :: "dict option"
  s_session_id :: "string option"
  s_state :: State

definition SmsVerificationPanel_init :: SmsVerificationPanel where
  "SmsVerificationPanel_init =
     \<lparr>s_user_data = [], s_selected_merchant = None, s_session_id = None, s_state = IDLE\<rparr>"

definition s_transition :: "State \<Rightarrow> SmsVerificationPanel \<Rightarrow> SmsVerificationPanel" where
  "s_transition new_state p = p\<lparr>s_state := new_state\<rparr>"

definition s_on_merchant_selected :: "dict \<Rightarrow> SmsVerificationPanel \<Rightarrow> SmsVerificationPanel" where
  "s_on_merchant_selected merchant p = s_transition SELECTED (p\<lparr>s_selected_merchant := Some merchant\<rparr>)"

definition s_on_send_result ::
  "VerificationResult \<Rightarrow> SmsVerificationPanel \<times> world \<Rightarrow> SmsVerificationPanel \<times> world" where
  "s_on_send_result result pw =
     (case pw of (p, w) \<Rightarrow>
        if vr_success result
        then (s_transition AWAITING_CODE (p\<lparr>s_session_id := session_id result\<rparr>),
              emit [Sms_sent (case session_id result of Some a \<Rightarrow> a | None \<Rightarrow> [])] w)
        else (s_transition SELECTED p, w))"

definition s_on_send_error ::
  "string \<Rightarrow> SmsVerificationPanel \<times> world \<Rightarrow> SmsVerificationPanel \<times> world" where
  "s_on_send_error error_msg pw = (case pw of (p, w) \<Rightarrow> (s_transition SELECTED p, w))"

definition s_on_sms_verified ::
  "string \<Rightarrow> SmsVerificationPanel \<times> world \<Rightarrow> SmsVerificationPanel \<times> world" where
  "s_on_sms_verified auth pw =
     (case pw of (p, w) \<Rightarrow>
        ((s_transition COMPLETE p)\<lparr>s_selected_merchant := None, s_session_id := None\<rparr>,
         emit [Verification_completed True ''SMS verified successfully'' auth,
               Status_message ''SMS Verification complete!'' ''success'',
               Merchant_search_cleared] w))"

definition s_on_ws_update ::
  "dict \<Rightarrow> SmsVerificationPanel \<times> world \<Rightarrow> SmsVerificationPanel \<times> world" where
  "s_on_ws_update msg pw =
     (case pw of (p, w) \<Rightarrow>
        let status = get_default msg ''status'' [] in
        if status \<in> set [''verified'', ''completed'', ''success''] then
          (if s_state p = AWAITING_CODE
           then s_on_sms_verified (get_default msg ''auth_id'' []) (p, w)
           else (p, w))
        else if status \<in> set [''failed'', ''expired''] then
          (if s_state p = AWAITING_CODE \<or> s_state p = VERIFYING
           then (s_transition FAILED p, w)
           else (p, w))
        else (p, w))"

definition s_on_cancel_clicked ::
  "SmsVerificationPanel \<times> world \<Rightarrow> SmsVerificationPanel \<times> world" where
  "s_on_cancel_clicked pw =
     (case pw of (p, w) \<Rightarrow>
        let w1 = snd (cancel_session w) in
        (s_transition (if dict_truthy (s_selected_merchant p) then SELECTED else IDLE)
           (p\<lparr>s_session_id := None\<rparr>), w1))"

section \<open>api/websocket\_manager.py\<close>

text \<open>
  The manager's fields, with the two Qt objects it drives: of each \<open>QTimer\<close> whether it
  is active, of the \<open>QWebSocket\<close> its connection state. \<open>ws_emitted\<close> lists the signals
  the manager has emitted, in order.
\<close>

datatype socket_state = Unconnected | Connecting | Connected | Closing

datatype ws_signal =
    Sig_connected
  | Sig_disconnected
  | Sig_message_received dict
  | Sig_error_occurred string

record WebSocketManager =
  ws_user_id :: "int option"
  ws_token :: "string option"
  should_reconnect :: bool
  reconnect_attempts :: int
  is_connected :: bool
  reconnect_timer_active :: bool
  ping_timer_active :: bool
  ws :: socket_state
  ws_emitted :: "ws_signal list"

definition MAX_RECONNECT_ATTEMPTS :: int where
  "MAX_RECONNECT_ATTEMPTS = 10"

definition max_retries_error :: ws_signal where
  "max_retries_error = Sig_error_occurred ''Real-time connection lost after max retries''"

definition WebSocketManager_init :: WebSocketManager where
  "WebSocketManager_init =
     \<lparr>ws_user_id = None, ws_token = None, should_reconnect = False, reconnect_attempts = 0,
      is_connected = False, reconnect_timer_active = False, ping_timer_active = False,
      ws = Unconnected, ws_emitted = []\<rparr>"

definition attempt_connect :: "WebSocketManager \<Rightarrow> WebSocketManager" where
  \<comment> \<open>\<open>ws.open(url)\<close> starts a connection attempt\<close>
  "attempt_connect m =
     (if (case ws_user_id m of None \<Rightarrow> True | Some u \<Rightarrow> u = 0) \<or> \<not> truthy (ws_token m) then m
      else m\<lparr>ws := Connecting\<rparr>)"

definition connect_user :: "int \<Rightarrow> string \<Rightarrow> WebSocketManager \<Rightarrow> WebSocketManager" where
  "connect_user user_id token m =
     attempt_connect (m\<lparr>ws_user_id := Some user_id, ws_token := Some token,
                        should_reconnect := True, reconnect_attempts := 0\<rparr>)"

definition disconnect_user :: "WebSocketManager \<Rightarrow> WebSocketManager" where
  \<comment> \<open>\<open>ws.close()\<close> on an open socket starts its closing\<close>
  "disconnect_user m =
     (let m1 = m\<lparr>should_reconnect := False, ping_timer_active := False,
                  reconnect_timer_active := False\<rparr>;
          m2 = (if is_connected m1
                then m1\<lparr>ws := (if ws m1 = Unconnected then Unconnected else Closing)\<rparr>
                else m1)
      in m2\<lparr>is_connected := False\<rparr>)"

definition on_connected :: "WebSocketManager \<Rightarrow> WebSocketManager" where
  "on_connected m =
     m\<lparr>is_connected := True, reconnect_attempts := 0, reconnect_timer_active := False,
       ping_timer_active := True, ws_emitted := ws_emitted m @ [Sig_connected]\<rparr>"

definition on_disconnected :: "WebSocketManager \<Rightarrow> WebSocketManager" where
  "on_disconnected m =
     (let m1 = m\<lparr>is_connected := False, ping_timer_active := False,
                  ws_emitted := ws_emitted m @ [Sig_disconnected]\<rparr>
      in if should_reconnect m1 \<and> reconnect_attempts m1 < MAX_RECONNECT_ATTEMPTS then
           m1\<lparr>reconnect_attempts := reconnect_attempts m1 + 1, reconnect_timer_active := True\<rparr>
         else if reconnect_attempts m1 \<ge> MAX_RECONNECT_ATTEMPTS then
           m1\<lparr>ws_emitted := ws_emitted m1 @ [max_retries_error]\<rparr>
         else m1)"

definition on_message :: "dict option \<Rightarrow> WebSocketManager \<Rightarrow> WebSocketManager" where
  \<comment> \<open>the argument is \<open>json.loads(text)\<close>, \<open>None\<close> when it raises \<open>JSONDecodeError\<close>\<close>
  "on_message parsed m =
     (case parsed of
        Some d \<Rightarrow> m\<lparr>ws_emitted := ws_emitted m @ [Sig_message_received d]\<rparr>
      | None \<Rightarrow> m)"

definition on_error :: "string \<Rightarrow> WebSocketManager \<Rightarrow> WebSocketManager" where
  "on_error error_str m = m\<lparr>ws_emitted := ws_emitted m @ [Sig_error_occurred error_str]\<rparr>"

text \<open>
  The events of the disconnect/reconnect cycle that follows \<open>connect_user\<close>, each with
  the condition under which Qt delivers it: the socket reports \<open>connected\<close> while it is
  connecting; it reports \<open>disconnected\<close> when a connection attempt fails, an open
  connection drops or a closing ends; the single-shot reconnect timer fires while it is
  active; the user may disconnect at any time. \<open>ws_step\<close> is \<open>None\<close> when the event
  cannot occur.
\<close>

datatype ws_event = SocketOpened | SocketClosed | ReconnectTimerFired | UserDisconnect

fun ws_step :: "ws_event \<Rightarrow> WebSocketManager \<Rightarrow> WebSocketManager option" where
  "ws_step SocketOpened m =
     (if ws m = Connecting then Some (on_connected (m\<lparr>ws := Connected\<rparr>)) else None)"
| "ws_step SocketClosed m =
     (if ws m = Unconnected then None else Some (on_disconnected (m\<lparr>ws := Unconnected\<rparr>)))"
| "ws_step ReconnectTimerFired m =
     (if reconnect_timer_active m
      then Some (attempt_connect (m\<lparr>reconnect_timer_active := False\<rparr>)) else None)"
| "ws_step UserDisconnect m = Some (disconnect_user m)"

fun ws_run :: "ws_event list \<Rightarrow> WebSocketManager \<Rightarrow> WebSocketManager option" where
  "ws_run [] m = Some m"
| "ws_run (e # es) m = (case ws_step e m of None \<Rightarrow> None | Some m1 \<Rightarrow> ws_run es m1)"

definition terminal_errors :: "WebSocketManager \<Rightarrow> nat" where
  \<comment> \<open>how often the terminal error has been emitted\<close>
  "terminal_errors m = count_list (ws_emitted m) max_retries_error"

section \<open>Requests and sample inputs named by the theorems\<close>


definition c_sample :: BaseApiClient where
  "c_sample = \<lparr>shared_tokens = Some \<lparr>access_token = ''old'', refresh_token = ''r1'', expires_at = 5\<rparr>,
      session_authorization = Some ''Bearer old'',
      on_token_refresh = [\<lparr>cb_name = ''ws'', cb_raises = False\<rparr>],
      on_logout = [\<lparr>cb_name = ''bad'', cb_raises = True\<rparr>, \<lparr>cb_name = ''ui'', cb_raises = False\<rparr>],
      cb_log = [], net_log = []\<rparr>"

definition c_logged_out :: BaseApiClient where
  "c_logged_out = c_sample\<lparr>shared_tokens := None, session_authorization := None\<rparr>"

definition net_const :: "net_outcome \<Rightarrow> request \<Rightarrow> net_outcome" where
  "net_const outcome req = outcome"

text \<open>
  The two halves of \<open>verify_pin_code\<close> as a pool thread runs them. The first is the
  guards, which end with the locked read \<open>is_max_attempts_reached\<close>; it is \<open>None\<close> when
  all of them pass. The second is the rest, which starts with the locked
  \<open>increment_attempts\<close>. Between the two the thread holds no lock, neither the one of the
  verification state nor the one the service creates in its constructor.
\<close>

definition verify_pin_code_check :: "string \<Rightarrow> string option \<Rightarrow> world \<Rightarrow> VerificationResult option" where
  "verify_pin_code_check pin merchant_id w =
     (if \<not> fst (validate_pin pin) then Some (failure (snd (validate_pin pin)))
      else if \<not> truthy merchant_id then Some (failure ''Merchant ID is required'')
      else if is_max_attempts_reached (vstate w)
        then Some (failure ''Maximum verification attempts exceeded'')
      else None)"

definition verify_pin_code_charge ::
  "(request \<Rightarrow> net_outcome) \<Rightarrow> datetime \<Rightarrow> string \<Rightarrow> string option \<Rightarrow> int \<Rightarrow> world
     \<Rightarrow> (exc + VerificationResult) \<times> world" where
  "verify_pin_code_charge net now pin merchant_id user_id w =
     (let w1 = w\<lparr>vstate := increment_attempts (vstate w)\<rparr> in
      case verify_pin net now pin (str_of merchant_id) (Some user_id) (client w1) of
        (Inl e, c1) \<Rightarrow> (Inl e, w1\<lparr>client := c1\<rparr>)
      | (Inr response, c1) \<Rightarrow>
          if success response then
            let d = data_or_empty response;
                auth = map_of d ''auth_id'';
                w2 = complete_verification True ''PIN verified successfully'' (w1\<lparr>client := c1\<rparr>)
            in (Inr \<lparr>vr_success = True,
                      message = get_default d ''message'' ''PIN verified successfully'',
                      auth_id = auth, session_id = None, vr_data = Some d\<rparr>, w2)
          else
            let err = translate (error response) in
            (Inr (failure err),
             w1\<lparr>client := c1, vstate := update_status ''failed_attempt'' (vstate w1)\<rparr>))"

text \<open>
  The states the service can reach when its operations run on pool threads.
  \<open>reachable w ps\<close>: the singletons are in state \<open>w\<close> while the workers \<open>ps\<close>, each with
  its PIN, merchant identifier and user identifier, are inside \<open>verify_pin_code\<close>, past
  the guards and before \<open>increment_attempts\<close>. A worker passes the guards in the state of
  that moment and goes on later, after any other step. Every rule is a run of code that
  the threads can take with no other thread in between; the other operations are taken
  whole. Other components may change the client (login, refresh, logout) and emit signals.
\<close>

type_synonym pending = "string \<times> string option \<times> int"

definition world_init :: "BaseApiClient \<Rightarrow> world" where
  "world_init c = \<lparr>client = c, vstate = VerificationState_init, signals = []\<rparr>"

inductive reachable :: "world \<Rightarrow> pending list \<Rightarrow> bool" where
  init: "reachable (world_init c) []"
| start_email: "reachable w ps \<Longrightarrow> reachable (snd (start_email_verification net now md uid w)) ps"
| verify_check: "reachable w ps \<Longrightarrow> verify_pin_code_check pin mid w = None
                 \<Longrightarrow> reachable w ((pin, mid, uid) # ps)"
| verify_charge: "reachable w (ps1 @ (pin, mid, uid) # ps2)
                  \<Longrightarrow> reachable (snd (verify_pin_code_charge net now pin mid uid w)) (ps1 @ ps2)"
| start_sms: "reachable w ps \<Longrightarrow> reachable (snd (start_sms_verification net now md uid w)) ps"
| verify_sms: "reachable w ps \<Longrightarrow> reachable (snd (verify_sms_code net now vcode sid w)) ps"
| cancel: "reachable w ps \<Longrightarrow> reachable (snd (cancel_session w)) ps"
| elsewhere: "reachable w ps \<Longrightarrow> reachable (w\<lparr>client := c, signals := sg\<rparr>) ps"

definition attempts_ok :: "VerificationState \<Rightarrow> bool" where
  "attempts_ok vs = (0 \<le> attempts_count vs \<and> attempts_count vs \<le> 5 \<and> max_attempts vs = 5)"

text \<open>
  A session for the examples: an authenticated client, a merchant, a remote system that
  sends the email code and rejects every PIN, the world after the code was sent, and the
  world after \<open>n\<close> further rejected PINs.
\<close>

definition c_auth :: BaseApiClient where
  "c_auth = \<lparr>shared_tokens = Some \<lparr>access_token = ''acc'', refresh_token = ''ref'',
                                   expires_at = 3600000000\<rparr>,
             session_authorization = Some ''Bearer acc'', on_token_refresh = [], on_logout = [],
             cb_log = [], net_log = []\<rparr>"

definition merchant_sample :: dict where
  "merchant_sample = [(''merchant_id'', ''123e4567-e89b-12d3-a456-426614174000''),
                      (''contact_email'', ''shop@example.com'')]"

definition net_reject :: "request \<Rightarrow> net_outcome" where
  "net_reject req =
     (if req_url req = endpoint ''send_email_auth''
      then NetOk 200 [(''auth_id'', ''A1''), (''message'', ''sent'')]
      else NetHTTPError None (Some [(''error'', ''invalid_pin'')]) ''400 Client Error'')"

definition w_sent :: world where
  "w_sent = snd (start_email_verification net_reject 1 merchant_sample 7 (world_init c_auth))"

primrec verify_times :: "nat \<Rightarrow> world \<Rightarrow> world" where
  "verify_times 0 w = w"
| "verify_times (Suc n) w =
     verify_times n (snd (verify_pin_code net_reject 2 ''000000''
                            (Some ''123e4567-e89b-12d3-a456-426614174000'') 7 w))"

definition long_merchant_id :: string where
  "long_merchant_id = replicate 51 (CHR ''a'')"

text \<open>
  Two workers that overlap: after four rejected PINs both pass the guards, then each goes
  on. \<open>w_race\<close> is the world they leave.
\<close>

definition sample_merchant_id :: "string option" where
  "sample_merchant_id = Some ''123e4567-e89b-12d3-a456-426614174000''"

definition w_race :: world where
  "w_race =
     snd (verify_pin_code_charge net_reject 3 ''111111'' sample_merchant_id 7
       (snd (verify_pin_code_charge net_reject 3 ''000000'' sample_merchant_id 7
          (verify_times 4 w_sent))))"

text \<open>
  The panels of the examples: the email panel after a merchant was selected and the code
  sent, the SMS panel after its code was sent in session \<open>S1\<close>, two realtime messages
  that name another session, and PINs submitted one after the other.
\<close>

definition pw_sent :: "EmailVerificationPanel \<times> world" where
  "pw_sent = e_on_send_clicked net_reject 1
               (e_on_merchant_selected merchant_sample EmailVerificationPanel_init, world_init c_auth)"

definition sms_waiting :: "SmsVerificationPanel \<times> world" where
  "sms_waiting =
     s_on_send_result
       \<lparr>vr_success = True, message = ''sent'', auth_id = Some ''S1'', session_id = Some ''S1'',
        vr_data = Some [(''session_id'', ''S1'')]\<rparr>
       (s_transition SENDING
          (s_on_merchant_selected [(''merchant_id'', ''42''), (''contact_phone'', ''+15551234567'')]
             SmsVerificationPanel_init),
        (world_init c_auth)
          \<lparr>vstate := start_verification 1 ''42'' ''sms'' None (Some ''S1'') VerificationState_init\<rparr>)"

definition msg_other_verified :: dict where
  "msg_other_verified = [(''type'', ''verification_update''), (''status'', ''verified''),
                         (''auth_id'', ''OTHER'')]"

definition msg_other_failed :: dict where
  "msg_other_failed = [(''type'', ''verification_update''), (''status'', ''failed''),
                       (''session_id'', ''OTHER'')]"

fun e_submit_pins ::
  "(request \<Rightarrow> net_outcome) \<Rightarrow> (datetime \<times> string) list \<Rightarrow> EmailVerificationPanel \<times> world
     \<Rightarrow> EmailVerificationPanel \<times> world" where
  "e_submit_pins net [] pw = pw"
| "e_submit_pins net ((now, pin) # rest) pw = e_submit_pins net rest (e_submit_pin net now pin pw)"

definition five_pins :: "(datetime \<times> string) list" where
  "five_pins = [(2, ''000000''), (3, ''111111''), (4, ''222222''), (5, ''333333''), (6, ''444444'')]"

text \<open>
  \<open>_submit_pin\<close> up to the start of its worker: the panel after the transition, and the
  arguments of the worker when one is started. \<open>late_send_result\<close> is the result of a send
  worker that is delivered while a verify worker is in flight.
\<close>

definition e_submit_pin_dispatch ::
  "string \<Rightarrow> EmailVerificationPanel \<Rightarrow> EmailVerificationPanel \<times> pending option" where
  "e_submit_pin_dispatch pin p =
     (if e_state p \<noteq> AWAITING_CODE then (p, None)
      else
        let p1 = e_transition VERIFYING p;
            user_id = user_id_of (e_user_data p1)
        in (p1, Some (pin, e_current_merchant_id p1, user_id)))"

definition late_send_result :: VerificationResult where
  "late_send_result =
     \<lparr>vr_success = True, message = ''sent'', auth_id = Some ''A1'', session_id = None,
      vr_data = Some [(''auth_id'', ''A1''), (''message'', ''sent'')]\<rparr>"

text \<open>
  What holds of the manager throughout a cycle in which the terminal error had been
  emitted \<open>n0\<close> times before: the counter is within 0..10, the reconnect timer runs only
  while the socket is unconnected, and the terminal error has been emitted at most once
  more, after which the socket is unconnected and the timer idle. \<open>ws_quiet\<close>: nothing
  is pending. \<open>ten_failures\<close>: ten failed attempts, each followed by the reconnect timer;
  \<open>m_tenth\<close>: the manager they lead to from a fresh one.
\<close>

definition ws_inv :: "nat \<Rightarrow> WebSocketManager \<Rightarrow> bool" where
  "ws_inv n0 m =
     (0 \<le> reconnect_attempts m \<and> reconnect_attempts m \<le> MAX_RECONNECT_ATTEMPTS \<and>
      (reconnect_timer_active m \<longrightarrow> ws m = Unconnected) \<and>
      n0 \<le> terminal_errors m \<and> terminal_errors m \<le> n0 + 1 \<and>
      (terminal_errors m = n0 + 1 \<longrightarrow> ws m = Unconnected \<and> \<not> reconnect_timer_active m))"

definition ws_quiet :: "WebSocketManager \<Rightarrow> bool" where
  "ws_quiet m = (ws m = Unconnected \<and> \<not> reconnect_timer_active m)"

definition ten_failures :: "ws_event list" where
  "ten_failures = concat (replicate 10 [SocketClosed, ReconnectTimerFired])"

definition m_tenth :: WebSocketManager where
  "m_tenth =
     \<lparr>ws_user_id = Some 7, ws_token = Some ''tok'', should_reconnect = True,
      reconnect_attempts = 10, is_connected = False, reconnect_timer_active = False,
      ping_timer_active = False, ws = Connecting,
      ws_emitted = replicate 10 Sig_disconnected\<rparr>"

section \<open>Properties of the token pair and the request engine\<close>

text \<open>
  C4. For every token and every observation time, \<open>needs_refresh\<close> holds exactly when
  the time has reached the expiry less 300 seconds, and \<open>is_expired\<close> holds exactly when
  the time has reached the expiry.
\<close>

theorem needs_refresh_is_expired_iff:
  "(needs_refresh now t \<longleftrightarrow> now \<ge> expires_at t - 300 * 1000000) \<and>
   (is_expired now t \<longleftrightarrow> now \<ge> expires_at t)"
  by (simp add: needs_refresh_def is_expired_def timedelta_def TOKEN_REFRESH_THRESHOLD_def)


text \<open>
  C6. An authenticated request made while no token is stored, or while the stored token
  is expired at the time of the call, returns at once the failure with status 401 and
  error \<open>Authentication required\<close>; the client, and with it the log of requests sent, is
  unchanged.
\<close>

theorem make_request_unauthenticated:
  assumes "shared_tokens c = None \<or> (\<exists>t. shared_tokens c = Some t \<and> now \<ge> expires_at t)"
  shows "make_request net now meth ep True payload c =
           (Inr \<lparr>success = False, data = None, error = Some ''Authentication required'',
                 status_code = Some 401\<rparr>, c)
         \<and> net_log (snd (make_request net now meth ep True payload c)) = net_log c"
proof -
  from assms have "\<not> is_authenticated now c"
    by (auto simp: is_authenticated_def is_expired_def)
  then show ?thesis
    by (simp add: make_request_def)
qed

theorem make_request_unauthenticated_witness:
  "make_request (net_const (NetOk 200 [])) 5 ''POST'' ''/auth/verify-pin/'' True [] c_sample =
     (Inr \<lparr>success = False, data = None, error = Some ''Authentication required'',
           status_code = Some 401\<rparr>, c_sample)
   \<and> make_request (net_const (NetOk 200 [])) 0 ''GET'' ''/auth/history/'' True [] c_logged_out =
     (Inr \<lparr>success = False, data = None, error = Some ''Authentication required'',
           status_code = Some 401\<rparr>, c_logged_out)"
  using make_request_unauthenticated [where c = c_sample and now = 5 and meth = "''POST''"
          and net = "net_const (NetOk 200 [])" and ep = "''/auth/verify-pin/''" and payload = "[]"]
        make_request_unauthenticated [where c = c_logged_out and now = 0 and meth = "''GET''"
          and net = "net_const (NetOk 200 [])" and ep = "''/auth/history/''" and payload = "[]"]
  by (simp add: c_sample_def c_logged_out_def)

section \<open>Token refresh\<close>













section \<open>The attempt budget of the verification service\<close>

lemma attempts_ok_complete:
  "attempts_ok (vstate w) \<Longrightarrow> attempts_ok (vstate (complete_verification ok msg w))"
  by (simp add: complete_verification_def attempts_ok_def reset_state_def Let_def split: option.splits)

lemma attempts_ok_increment:
  "attempts_ok vs \<Longrightarrow> \<not> is_max_attempts_reached vs \<Longrightarrow> attempts_ok (increment_attempts vs)"
  by (simp add: attempts_ok_def is_max_attempts_reached_def increment_attempts_def)

lemma verify_pin_code_split:
  "verify_pin_code net now pin mid uid w =
     (case verify_pin_code_check pin mid w of
        Some r \<Rightarrow> (Inr r, w)
      | None \<Rightarrow> verify_pin_code_charge net now pin mid uid w)"
  by (simp add: verify_pin_code_def verify_pin_code_check_def verify_pin_code_charge_def)

text \<open>A call of \<open>verify_pin_code\<close> that no other thread interrupts keeps the bound.\<close>

lemma attempts_ok_verify_pin:
  assumes "attempts_ok (vstate w)"
  shows "attempts_ok (vstate (snd (verify_pin_code net now pin mid uid w)))"
proof (cases "\<not> fst (validate_pin pin) \<or> \<not> truthy mid \<or> is_max_attempts_reached (vstate w)")
  case True
  then show ?thesis using assms by (auto simp: verify_pin_code_def)
next
  case False
  let ?w1 = "w\<lparr>vstate := increment_attempts (vstate w)\<rparr>"
  from False assms have ok1: "attempts_ok (vstate ?w1)"
    by (simp add: attempts_ok_increment)
  have upd: "\<And>c1. attempts_ok (vstate (?w1\<lparr>client := c1\<rparr>))" using ok1 by simp
  have st: "\<And>c1. attempts_ok (update_status ''failed_attempt'' (vstate ?w1))"
    using ok1 by (simp add: update_status_def attempts_ok_def)
  show ?thesis
    using False upd st attempts_ok_complete [of "?w1\<lparr>client := c1\<rparr>" for c1]
    by (simp add: verify_pin_code_def Let_def split: prod.splits sum.splits)
qed

lemma verify_pin_code_at_max:
  assumes "is_max_attempts_reached (vstate w)"
  shows "snd (verify_pin_code net now pin mid uid w) = w"
    and "\<exists>msg. fst (verify_pin_code net now pin mid uid w) = Inr (failure msg)"
    and "fst (validate_pin pin) \<Longrightarrow> truthy mid \<Longrightarrow>
         fst (verify_pin_code net now pin mid uid w) = Inr (failure ''Maximum verification attempts exceeded'')"
  using assms by (auto simp: verify_pin_code_def)

lemma reachable_verify_pin:
  assumes "reachable w ps"
  shows "reachable (snd (verify_pin_code net now pin mid uid w)) ps"
proof (cases "verify_pin_code_check pin mid w")
  case None
  from assms None have "reachable w ((pin, mid, uid) # ps)"
    by (rule reachable.verify_check)
  then have "reachable w ([] @ (pin, mid, uid) # ps)" by simp
  then have "reachable (snd (verify_pin_code_charge net now pin mid uid w)) ([] @ ps)"
    by (rule reachable.verify_charge)
  then show ?thesis by (simp add: verify_pin_code_split None)
next
  case (Some r)
  then show ?thesis using assms by (simp add: verify_pin_code_split)
qed

lemma reachable_verify_times: "reachable w ps \<Longrightarrow> reachable (verify_times n w) ps"
  by (induction n arbitrary: w) (simp_all add: reachable_verify_pin)

lemma reachable_w_sent: "reachable w_sent []"
  unfolding w_sent_def by (rule reachable.start_email) (rule reachable.init)

lemma e_submit_pin_split:
  "e_submit_pin net now pin (p, w) =
     (case e_submit_pin_dispatch pin p of
        (p1, None) \<Rightarrow> (p1, w)
      | (p1, Some (pin1, mid, uid)) \<Rightarrow>
          deliver e_on_verify_result e_on_verify_error
            (fst (fst (run (as_task (verify_pin_code net now pin1 mid uid)) w)))
            (p1, snd (run (as_task (verify_pin_code net now pin1 mid uid)) w)))"
  by (simp add: e_submit_pin_def e_submit_pin_dispatch_def Let_def split: prod.splits)

text \<open>
  C1. The claim does not hold of the code when two workers are inside
  \<open>verify_pin_code\<close> at once. After four rejected PINs the counter is 4; two workers
  pass the guards in that state, and each then charges its attempt: the state they leave
  is reachable, its counter is 6 and its \<open>max_attempts\<close> is 5. The panel does start a
  second worker while the first is in flight: with a verify worker started, the result of
  a send worker that arrives puts the panel back in \<open>AWAITING_CODE\<close>, and the next submit
  starts another verify worker.
\<close>

theorem attempts_exceed_max_interleaved:
  "attempts_count (vstate (verify_times 4 w_sent)) = 4 \<and>
   verify_pin_code_check ''000000'' sample_merchant_id (verify_times 4 w_sent) = None \<and>
   verify_pin_code_check ''111111'' sample_merchant_id (verify_times 4 w_sent) = None \<and>
   reachable w_race [] \<and>
   attempts_count (vstate w_race) = 6 \<and> max_attempts (vstate w_race) = 5 \<and>
   snd (e_submit_pin_dispatch ''000000'' (fst pw_sent)) = Some (''000000'', sample_merchant_id, 0) \<and>
   e_state (fst (e_submit_pin_dispatch ''000000'' (fst pw_sent))) = VERIFYING \<and>
   e_state (fst (e_on_send_result late_send_result
                   (fst (e_submit_pin_dispatch ''000000'' (fst pw_sent)), snd pw_sent))) = AWAITING_CODE \<and>
   snd (e_submit_pin_dispatch ''111111''
          (fst (e_on_send_result late_send_result
                  (fst (e_submit_pin_dispatch ''000000'' (fst pw_sent)), snd pw_sent)))) =
     Some (''111111'', sample_merchant_id, 0)"
proof -
  let ?w4 = "verify_times 4 w_sent"
  let ?a = "(''000000'', sample_merchant_id, 7 :: int)"
  let ?b = "(''111111'', sample_merchant_id, 7 :: int)"
  have four: "attempts_count (vstate ?w4) = 4" by code_simp
  have ca: "verify_pin_code_check ''000000'' sample_merchant_id ?w4 = None" by code_simp
  have cb: "verify_pin_code_check ''111111'' sample_merchant_id ?w4 = None" by code_simp
  have "reachable ?w4 []"
    by (rule reachable_verify_times) (rule reachable_w_sent)
  then have "reachable ?w4 [?a]" using ca by (rule reachable.verify_check)
  then have "reachable ?w4 [?b, ?a]" using cb by (rule reachable.verify_check)
  then have "reachable ?w4 ([?b] @ ?a # [])" by simp
  then have "reachable (snd (verify_pin_code_charge net_reject 3 ''000000'' sample_merchant_id 7 ?w4))
               ([?b] @ [])"
    by (rule reachable.verify_charge)
  then have "reachable (snd (verify_pin_code_charge net_reject 3 ''000000'' sample_merchant_id 7 ?w4))
               ([] @ ?b # [])"
    by simp
  then have "reachable w_race ([] @ [])"
    unfolding w_race_def by (rule reachable.verify_charge)
  then have race: "reachable w_race []" by simp
  have six: "attempts_count (vstate w_race) = 6" by code_simp
  have five: "max_attempts (vstate w_race) = 5" by code_simp
  have d1: "snd (e_submit_pin_dispatch ''000000'' (fst pw_sent)) =
              Some (''000000'', sample_merchant_id, 0)"
    by code_simp
  have s1: "e_state (fst (e_submit_pin_dispatch ''000000'' (fst pw_sent))) = VERIFYING"
    by code_simp
  have s2: "e_state (fst (e_on_send_result late_send_result
                   (fst (e_submit_pin_dispatch ''000000'' (fst pw_sent)), snd pw_sent))) = AWAITING_CODE"
    by code_simp
  have d2: "snd (e_submit_pin_dispatch ''111111''
          (fst (e_on_send_result late_send_result
                  (fst (e_submit_pin_dispatch ''000000'' (fst pw_sent)), snd pw_sent)))) =
     Some (''111111'', sample_merchant_id, 0)"
    by code_simp
  show ?thesis
    using four ca cb race six five d1 s1 s2 d2 by simp
qed

section \<open>The validation gate\<close>

lemma verify_pin_code_gate:
  assumes "\<not> fst (validate_pin pin) \<or> \<not> truthy mid"
  shows "snd (verify_pin_code net now pin mid uid w) = w"
    and "\<exists>msg. fst (verify_pin_code net now pin mid uid w) = Inr (failure msg)"
  using assms by (auto simp: verify_pin_code_def)

lemma start_email_verification_gate:
  assumes "\<not> truthy (map_of md ''merchant_id'') \<or>
           \<not> fst (validate_merchant_id (str_of (map_of md ''merchant_id''))) \<or>
           \<not> truthy (py_or (map_of md ''contact_email'') (map_of md ''email'')) \<or>
           \<not> fst (validate_email (str_of (py_or (map_of md ''contact_email'') (map_of md ''email''))))"
  shows "snd (start_email_verification net now md uid w) = w"
    and "\<exists>msg. fst (start_email_verification net now md uid w) = Inr (failure msg)"
  using assms by (auto simp: start_email_verification_def Let_def)

lemma start_sms_verification_gate:
  assumes "\<not> truthy (map_of md ''merchant_id'') \<or>
           \<not> truthy (py_or (map_of md ''contact_phone'') (map_of md ''phone'')) \<or>
           \<not> fst (validate_phone (str_of (py_or (map_of md ''contact_phone'') (map_of md ''phone''))))"
  shows "snd (start_sms_verification net now md uid w) = w"
    and "\<exists>msg. fst (start_sms_verification net now md uid w) = Inr (failure msg)"
  using assms by (auto simp: start_sms_verification_def Let_def)

text \<open>
  C8 (as amended). \<open>verify_pin_code\<close> returns a local failure and leaves the world as
  it is (no request sent, attempts counter unchanged) when the PIN fails \<open>validate_pin\<close>
  or the merchant identifier is missing or empty. The shape of the merchant identifier and
  the contact address are checked by the send operations: \<open>start_email_verification\<close>
  returns a local failure and leaves the world as it is when the merchant identifier is
  missing or fails \<open>validate_merchant_id\<close>, or the email is missing or fails
  \<open>validate_email\<close>; \<open>start_sms_verification\<close> does so when the merchant identifier
  or the phone is missing or the phone fails \<open>validate_phone\<close>.
\<close>

theorem validation_gate:
  "(\<not> fst (validate_pin pin) \<or> \<not> truthy mid \<longrightarrow>
      snd (verify_pin_code net now pin mid uid w) = w \<and>
      (\<exists>msg. fst (verify_pin_code net now pin mid uid w) = Inr (failure msg)))
   \<and> (\<not> truthy (map_of md ''merchant_id'') \<or>
        \<not> fst (validate_merchant_id (str_of (map_of md ''merchant_id''))) \<or>
        \<not> truthy (py_or (map_of md ''contact_email'') (map_of md ''email'')) \<or>
        \<not> fst (validate_email (str_of (py_or (map_of md ''contact_email'') (map_of md ''email'')))) \<longrightarrow>
      snd (start_email_verification net now md uid w) = w \<and>
      (\<exists>msg. fst (start_email_verification net now md uid w) = Inr (failure msg)))
   \<and> (\<not> truthy (map_of md ''merchant_id'') \<or>
        \<not> truthy (py_or (map_of md ''contact_phone'') (map_of md ''phone'')) \<or>
        \<not> fst (validate_phone (str_of (py_or (map_of md ''contact_phone'') (map_of md ''phone'')))) \<longrightarrow>
      snd (start_sms_verification net now md uid w) = w \<and>
      (\<exists>msg. fst (start_sms_verification net now md uid w) = Inr (failure msg)))"
  using verify_pin_code_gate [of pin mid net now uid w]
        start_email_verification_gate [of md net now uid w]
        start_sms_verification_gate [of md net now uid w]
  by blast

theorem validation_gate_witness:
  "snd (verify_pin_code net_reject 2 ''12ab56'' (Some ''42'') 7 w_sent) = w_sent
   \<and> snd (start_email_verification net_reject 2
            [(''merchant_id'', long_merchant_id), (''contact_email'', ''shop@example.com'')] 7 w_sent) = w_sent
   \<and> snd (start_sms_verification net_reject 2
            [(''merchant_id'', ''42''), (''contact_phone'', ''12345'')] 7 w_sent) = w_sent"
proof -
  have p: "\<not> fst (validate_pin ''12ab56'')" by code_simp
  have m: "\<not> fst (validate_merchant_id long_merchant_id)" by code_simp
  have ph: "\<not> fst (validate_phone ''12345'')" by code_simp
  show ?thesis
    using validation_gate [where pin = "''12ab56''" and mid = "Some ''42''" and net = net_reject
            and now = 2 and uid = 7 and w = w_sent]
          validation_gate [where md = "[(''merchant_id'', long_merchant_id), (''contact_email'', ''shop@example.com'')]"
            and net = net_reject and now = 2 and uid = 7 and w = w_sent]
          validation_gate [where md = "[(''merchant_id'', ''42''), (''contact_phone'', ''12345'')]"
            and net = net_reject and now = 2 and uid = 7 and w = w_sent]
          p m ph
    by (simp add: str_of_def py_or_def truthy_def)
qed

text \<open>
  The claim as stated fails for \<open>verify_pin_code\<close> with a well-formed PIN and a merchant
  identifier of 51 letters, which \<open>validate_merchant_id\<close> rejects: the attempt is charged
  and a request is sent. \<open>start_sms_verification\<close> sends its request for the same
  identifier too.
\<close>

theorem validation_gate_counterexample:
  "fst (validate_pin ''123456'') \<and> \<not> fst (validate_merchant_id long_merchant_id) \<and>
   attempts_count (vstate (snd (verify_pin_code net_reject 2 ''123456'' (Some long_merchant_id) 7 w_sent)))
     = attempts_count (vstate w_sent) + 1 \<and>
   length (net_log (client (snd (verify_pin_code net_reject 2 ''123456'' (Some long_merchant_id) 7 w_sent))))
     = length (net_log (client w_sent)) + 1 \<and>
   fst (validate_phone ''+15551234567'') \<and>
   length (net_log (client (snd (start_sms_verification net_reject 2
             [(''merchant_id'', long_merchant_id), (''contact_phone'', ''+15551234567'')] 7
             (world_init c_auth)))))
     = length (net_log (client (world_init c_auth))) + 1"
  by code_simp

section \<open>Completion, cancellation and the worker\<close>

text \<open>
  C10. \<open>complete_verification\<close> leaves the world as it is, emitting no signal, when no
  verification is active, and \<open>cancel_session\<close> then returns \<open>False\<close> with the world
  unchanged. When a verification is active, afterwards \<open>is_active\<close> is false,
  \<open>get_attempts\<close> is 0, \<open>get_auth_id\<close> is \<open>None\<close> and \<open>get_status\<close> is \<open>idle\<close>, and
  \<open>cancel_session\<close> is \<open>complete_verification\<close> with \<open>success=False\<close>.
\<close>

theorem complete_verification_effect:
  "(\<not> is_active (vstate w) \<longrightarrow>
      complete_verification ok msg w = w \<and>
      signals (complete_verification ok msg w) = signals w \<and>
      cancel_session w = (False, w))
   \<and> (is_active (vstate w) \<longrightarrow>
      \<not> is_active (vstate (complete_verification ok msg w)) \<and>
      get_attempts (vstate (complete_verification ok msg w)) = 0 \<and>
      get_auth_id (vstate (complete_verification ok msg w)) = None \<and>
      get_status (vstate (complete_verification ok msg w)) = ''idle'' \<and>
      cancel_session w = (True, complete_verification False ''Cancelled by user'' w))"
  by (auto simp: is_active_def complete_verification_def cancel_session_def reset_state_def
        get_attempts_def get_auth_id_def get_status_def Let_def)

theorem complete_verification_effect_witness:
  "complete_verification True ''done'' (world_init c_auth) = world_init c_auth \<and>
   cancel_session (world_init c_auth) = (False, world_init c_auth) \<and>
   get_attempts (vstate (complete_verification True ''done'' (verify_times 2 w_sent))) = 0 \<and>
   get_status (vstate (complete_verification True ''done'' (verify_times 2 w_sent))) = ''idle'' \<and>
   get_auth_id (vstate (complete_verification True ''done'' (verify_times 2 w_sent))) = None \<and>
   \<not> is_active (vstate (snd (cancel_session (verify_times 2 w_sent))))"
proof -
  have a: "is_active (vstate (verify_times 2 w_sent))" by code_simp
  have b: "\<not> is_active (vstate (world_init c_auth))"
    by (simp add: is_active_def world_init_def VerificationState_init_def)
  show ?thesis
    using complete_verification_effect [of "world_init c_auth" True "''done''"]
          complete_verification_effect [of "verify_times 2 w_sent" True "''done''"]
          complete_verification_effect [of "verify_times 2 w_sent" False "''Cancelled by user''"]
          a b
    by simp
qed

text \<open>
  C9 (as amended). A worker whose operation returns emits \<open>result\<close> with the value and
  then \<open>finished\<close>; a worker whose operation raises an \<open>Exception\<close> emits \<open>error\<close> with
  its text and then \<open>finished\<close>; in both runs nothing leaves \<open>run\<close> and exactly one signal
  other than \<open>finished\<close> is emitted. A worker whose operation raises a \<open>BaseException\<close>
  that is not an \<open>Exception\<close> emits \<open>finished\<close> alone, and the exception leaves \<open>run\<close>.
  In every run \<open>finished\<close> is the last signal, and the state the operation leaves is the
  state after the run.
\<close>

theorem run_outcomes:
  "fst (run fn s) =
     (case fst (fn s) of
        Returns result \<Rightarrow> ([Result result, Finished], None)
      | RaisesException e \<Rightarrow> ([Error e, Finished], None)
      | RaisesBaseException b \<Rightarrow> ([Finished], Some b))
   \<and> snd (run fn s) = snd (fn s)
   \<and> length (filter (\<lambda>sig. sig \<noteq> Finished) (fst (fst (run fn s)))) =
       (case fst (fn s) of
          Returns result \<Rightarrow> 1
        | RaisesException e \<Rightarrow> 1
        | RaisesBaseException b \<Rightarrow> 0)
   \<and> last (fst (fst (run fn s))) = Finished"
  by (simp add: run_def Let_def split: prod.splits call_outcome.splits)

text \<open>
  The claim as stated fails for an operation that raises \<open>SystemExit\<close>: neither
  \<open>result\<close> nor \<open>error\<close> is emitted, and the exception leaves \<open>run\<close>.
\<close>

theorem run_base_exception_counterexample:
  "run (\<lambda>s. (RaisesBaseException ''SystemExit'' :: nat call_outcome, s)) (0 :: nat) =
     (([Finished], Some ''SystemExit''), 0)"
  by (simp add: run_def)


section \<open>The panels: realtime updates and rejected PINs\<close>

text \<open>
  The claim as stated fails on both panels. The email panel waits for a code in a session
  whose identifier is \<open>A1\<close>; a message with status \<open>verified\<close> and \<open>auth_id\<close> \<open>OTHER\<close>
  moves it to \<open>COMPLETE\<close> and clears the selected merchant. The SMS panel waits in session
  \<open>S1\<close>; a message with status \<open>failed\<close> and \<open>session_id\<close> \<open>OTHER\<close> moves it to \<open>FAILED\<close>.
\<close>

theorem ws_update_counterexample:
  "e_state (fst pw_sent) = AWAITING_CODE \<and>
   current_auth_id (vstate (snd pw_sent)) = Some ''A1'' \<and>
   map_of msg_other_verified ''auth_id'' = Some ''OTHER'' \<and>
   e_state (fst (e_on_ws_update msg_other_verified pw_sent)) = COMPLETE \<and>
   e_selected_merchant (fst pw_sent) = Some merchant_sample \<and>
   e_selected_merchant (fst (e_on_ws_update msg_other_verified pw_sent)) = None \<and>
   s_state (fst sms_waiting) = AWAITING_CODE \<and>
   s_session_id (fst sms_waiting) = Some ''S1'' \<and>
   map_of msg_other_failed ''session_id'' = Some ''OTHER'' \<and>
   s_state (fst (s_on_ws_update msg_other_failed sms_waiting)) = FAILED"
  by code_simp

text \<open>
  C2 (as amended). Delivering a realtime message to a panel's WebSocket-update handler
  leaves the panel and the world as they are exactly when the message is neither a reported
  success (\<open>verified\<close>, \<open>completed\<close>, \<open>success\<close>) arriving in \<open>AWAITING_CODE\<close> nor a
  reported failure (\<open>failed\<close>, \<open>expired\<close>) arriving in \<open>AWAITING_CODE\<close> or \<open>VERIFYING\<close>.
  The handler does not compare the identifier in the message with the session's: the
  panel after the message is the same whatever \<open>auth_id\<close> or \<open>session_id\<close> it carries.
\<close>

theorem ws_update_transitions:
  "(e_on_ws_update msg (p, w) = (p, w) \<longleftrightarrow>
      \<not> ((get_default msg ''status'' [] \<in> set [''verified'', ''completed'', ''success''] \<and>
           e_state p = AWAITING_CODE) \<or>
          (get_default msg ''status'' [] \<in> set [''failed'', ''expired''] \<and>
           (e_state p = AWAITING_CODE \<or> e_state p = VERIFYING))))
   \<and> (s_on_ws_update msg (q, w) = (q, w) \<longleftrightarrow>
      \<not> ((get_default msg ''status'' [] \<in> set [''verified'', ''completed'', ''success''] \<and>
           s_state q = AWAITING_CODE) \<or>
          (get_default msg ''status'' [] \<in> set [''failed'', ''expired''] \<and>
           (s_state q = AWAITING_CODE \<or> s_state q = VERIFYING))))
   \<and> fst (e_on_ws_update ((''auth_id'', a) # msg) (p, w)) =
       fst (e_on_ws_update ((''auth_id'', b) # msg) (p, w))
   \<and> fst (e_on_ws_update ((''session_id'', a) # msg) (p, w)) =
       fst (e_on_ws_update ((''session_id'', b) # msg) (p, w))
   \<and> fst (s_on_ws_update ((''auth_id'', a) # msg) (q, w)) =
       fst (s_on_ws_update ((''auth_id'', b) # msg) (q, w))
   \<and> fst (s_on_ws_update ((''session_id'', a) # msg) (q, w)) =
       fst (s_on_ws_update ((''session_id'', b) # msg) (q, w))"
proof (intro conjI)
  show "e_on_ws_update msg (p, w) = (p, w) \<longleftrightarrow>
      \<not> ((get_default msg ''status'' [] \<in> set [''verified'', ''completed'', ''success''] \<and>
           e_state p = AWAITING_CODE) \<or>
          (get_default msg ''status'' [] \<in> set [''failed'', ''expired''] \<and>
           (e_state p = AWAITING_CODE \<or> e_state p = VERIFYING)))"
    by (cases p) (auto simp: e_on_ws_update_def e_on_pin_verified_def e_transition_def Let_def)
  show "s_on_ws_update msg (q, w) = (q, w) \<longleftrightarrow>
      \<not> ((get_default msg ''status'' [] \<in> set [''verified'', ''completed'', ''success''] \<and>
           s_state q = AWAITING_CODE) \<or>
          (get_default msg ''status'' [] \<in> set [''failed'', ''expired''] \<and>
           (s_state q = AWAITING_CODE \<or> s_state q = VERIFYING)))"
    by (cases q) (auto simp: s_on_ws_update_def s_on_sms_verified_def s_transition_def Let_def)
  show "fst (e_on_ws_update ((''auth_id'', a) # msg) (p, w)) =
       fst (e_on_ws_update ((''auth_id'', b) # msg) (p, w))"
    by (simp add: e_on_ws_update_def e_on_pin_verified_def get_default_def Let_def)
  show "fst (e_on_ws_update ((''session_id'', a) # msg) (p, w)) =
       fst (e_on_ws_update ((''session_id'', b) # msg) (p, w))"
    by (simp add: e_on_ws_update_def e_on_pin_verified_def get_default_def Let_def)
  show "fst (s_on_ws_update ((''auth_id'', a) # msg) (q, w)) =
       fst (s_on_ws_update ((''auth_id'', b) # msg) (q, w))"
    by (simp add: s_on_ws_update_def s_on_sms_verified_def get_default_def Let_def)
  show "fst (s_on_ws_update ((''session_id'', a) # msg) (q, w)) =
       fst (s_on_ws_update ((''session_id'', b) # msg) (q, w))"
    by (simp add: s_on_ws_update_def s_on_sms_verified_def get_default_def Let_def)
qed

theorem ws_update_transitions_witness:
  "e_on_ws_update [(''status'', ''pending''), (''auth_id'', ''A1'')] pw_sent = pw_sent \<and>
   s_on_ws_update [(''status'', ''verified''), (''session_id'', ''S1'')]
     (s_transition VERIFYING (fst sms_waiting), snd sms_waiting) =
     (s_transition VERIFYING (fst sms_waiting), snd sms_waiting) \<and>
   fst (e_on_ws_update ((''auth_id'', ''A1'') # msg_other_verified) pw_sent) =
     fst (e_on_ws_update ((''auth_id'', ''OTHER'') # msg_other_verified) pw_sent)"
proof -
  have st: "e_state (fst pw_sent) = AWAITING_CODE" by code_simp
  have sv: "s_state (s_transition VERIFYING (fst sms_waiting)) = VERIFYING"
    by (simp add: s_transition_def)
  show ?thesis
    using ws_update_transitions [where msg = "[(''status'', ''pending''), (''auth_id'', ''A1'')]"
            and p = "fst pw_sent" and w = "snd pw_sent"]
          ws_update_transitions [where msg = "[(''status'', ''verified''), (''session_id'', ''S1'')]"
            and q = "s_transition VERIFYING (fst sms_waiting)" and w = "snd sms_waiting"]
          ws_update_transitions [where msg = msg_other_verified and p = "fst pw_sent"
            and w = "snd pw_sent" and a = "''A1''" and b = "''OTHER''"]
          st sv
    by (simp add: get_default_def)
qed

lemma make_url_verify_pin: "make_url (endpoint ''verify_pin'') = endpoint ''verify_pin''"
  by (simp add: make_url_def endpoint_def get_api_endpoints_def API_BASE_URL_def)

lemma verify_pin_code_rejected:
  assumes "fst (validate_pin pin)" "truthy mid" "\<not> is_max_attempts_reached (vstate w)"
      and "\<forall>req st d. req_url req = endpoint ''verify_pin'' \<longrightarrow> net req \<noteq> NetOk st d"
  shows "(case fst (verify_pin_code net now pin mid uid w) of
            Inr r \<Rightarrow> \<not> vr_success r | Inl e \<Rightarrow> True) \<and>
         attempts_count (vstate (snd (verify_pin_code net now pin mid uid w))) =
           attempts_count (vstate w) + 1 \<and>
         max_attempts (vstate (snd (verify_pin_code net now pin mid uid w))) =
           max_attempts (vstate w)"
proof -
  let ?w1 = "w\<lparr>vstate := increment_attempts (vstate w)\<rparr>"
  obtain out c1 where vp: "verify_pin net now pin (str_of mid) (Some uid) (client ?w1) = (out, c1)"
    by (cases "verify_pin net now pin (str_of mid) (Some uid) (client ?w1)") auto
  have nosucc: "\<And>r. out = Inr r \<Longrightarrow> \<not> success r"
    using vp assms(4)
    by (auto simp: verify_pin_def post_def make_request_def make_url_verify_pin Let_def
             split: if_splits net_outcome.splits)
  show ?thesis
    using assms(1-3) vp nosucc
    by (cases out)
       (simp_all add: verify_pin_code_def Let_def increment_attempts_def update_status_def failure_def)
qed

lemma e_submit_pin_rejected:
  assumes "e_state p = AWAITING_CODE" "fst (validate_pin pin)" "truthy (e_current_merchant_id p)"
      and "\<not> is_max_attempts_reached (vstate w)" "\<forall>req st d. req_url req = endpoint ''verify_pin'' \<longrightarrow> net req \<noteq> NetOk st d"
  shows "fst (e_submit_pin net now pin (p, w)) = p \<and>
         attempts_count (vstate (snd (e_submit_pin net now pin (p, w)))) = attempts_count (vstate w) + 1 \<and>
         max_attempts (vstate (snd (e_submit_pin net now pin (p, w)))) = max_attempts (vstate w)"
proof -
  let ?uid = "user_id_of (e_user_data p)"
  obtain out w1 where vp: "verify_pin_code net now pin (e_current_merchant_id p) ?uid w = (out, w1)"
    by (cases "verify_pin_code net now pin (e_current_merchant_id p) ?uid w") auto
  from verify_pin_code_rejected [OF assms(2,3,4,5), where now = now and uid = "?uid"] vp
  have rej: "(case out of Inr r \<Rightarrow> \<not> vr_success r | Inl e \<Rightarrow> True)"
    and att: "attempts_count (vstate w1) = attempts_count (vstate w) + 1"
    and mx: "max_attempts (vstate w1) = max_attempts (vstate w)"
    by simp_all
  have restore: "e_transition AWAITING_CODE (e_transition VERIFYING p) = p"
    using assms(1) by (simp add: e_transition_def)
  show ?thesis
    using assms(1) vp rej att mx restore
    by (cases out)
       (simp_all add: e_submit_pin_def run_def as_task_def Let_def e_on_verify_result_def
          e_on_verify_error_def emit_def e_transition_def)
qed

lemma e_submit_pin_exhausted:
  assumes "e_state p = AWAITING_CODE" "is_max_attempts_reached (vstate w)"
  shows "fst (e_submit_pin net now pin (p, w)) = p \<and>
         client (snd (e_submit_pin net now pin (p, w))) = client w \<and>
         vstate (snd (e_submit_pin net now pin (p, w))) = vstate w"
proof -
  let ?uid = "user_id_of (e_user_data p)"
  from verify_pin_code_at_max(1,2) [OF assms(2), where net = net and now = now and pin = pin
         and mid = "e_current_merchant_id p" and uid = "?uid"]
  obtain msg where vp: "verify_pin_code net now pin (e_current_merchant_id p) ?uid w = (Inr (failure msg), w)"
    by (cases "verify_pin_code net now pin (e_current_merchant_id p) ?uid w") auto
  show ?thesis
    using assms(1) vp
    by (simp add: e_submit_pin_def run_def as_task_def Let_def e_on_verify_result_def failure_def
          emit_def e_transition_def)
qed

lemma e_submit_pins_rejected:
  assumes "e_state p = AWAITING_CODE" "truthy (e_current_merchant_id p)"
      and "\<forall>req st d. req_url req = endpoint ''verify_pin'' \<longrightarrow> net req \<noteq> NetOk st d"
      and "list_all (\<lambda>sub. fst (validate_pin (snd sub))) subs"
      and "attempts_count (vstate w) + int (length subs) \<le> max_attempts (vstate w)"
  shows "fst (e_submit_pins net subs (p, w)) = p \<and>
         attempts_count (vstate (snd (e_submit_pins net subs (p, w)))) =
           attempts_count (vstate w) + int (length subs) \<and>
         max_attempts (vstate (snd (e_submit_pins net subs (p, w)))) = max_attempts (vstate w)"
  using assms(4,5)
proof (induction subs arbitrary: w)
  case Nil
  show ?case by simp
next
  case (Cons sub subs)
  obtain now pin where sub: "sub = (now, pin)" by (cases sub)
  obtain p1 w1 where step: "e_submit_pin net now pin (p, w) = (p1, w1)"
    by (cases "e_submit_pin net now pin (p, w)")
  from Cons.prems have valid: "fst (validate_pin pin)" and rest: "list_all (\<lambda>sub. fst (validate_pin (snd sub))) subs"
    by (simp_all add: sub)
  from Cons.prems have notmax: "\<not> is_max_attempts_reached (vstate w)"
    by (simp add: is_max_attempts_reached_def)
  from e_submit_pin_rejected [OF assms(1) valid assms(2) notmax assms(3), where now = now] step
  have p1: "p1 = p" and att: "attempts_count (vstate w1) = attempts_count (vstate w) + 1"
    and mx: "max_attempts (vstate w1) = max_attempts (vstate w)"
    by simp_all
  from Cons.prems att mx have budget: "attempts_count (vstate w1) + int (length subs) \<le> max_attempts (vstate w1)"
    by simp
  from Cons.IH [OF rest budget] show ?case
    by (simp add: sub step p1 att mx)
qed

text \<open>
  C3 (as amended). On the email channel, from a fresh verification session (the panel in
  \<open>AWAITING_CODE\<close>, no attempt charged), five well-formed PINs submitted in a row to a
  remote system that accepts no PIN leave the panel in \<open>AWAITING_CODE\<close> after the fifth
  rejection, with five attempts charged; a sixth submit, of any PIN, sends no request,
  charges nothing and leaves the panel in \<open>AWAITING_CODE\<close> again.
\<close>

theorem five_wrong_pins:
  assumes "e_state p = AWAITING_CODE" "truthy (e_current_merchant_id p)"
      and "attempts_count (vstate w) = 0" "max_attempts (vstate w) = 5"
      and "length subs = 5" "list_all (\<lambda>sub. fst (validate_pin (snd sub))) subs"
      and "\<forall>req st d. req_url req = endpoint ''verify_pin'' \<longrightarrow> net req \<noteq> NetOk st d"
  shows "e_state (fst (e_submit_pins net subs (p, w))) = AWAITING_CODE \<and>
         attempts_count (vstate (snd (e_submit_pins net subs (p, w)))) = 5 \<and>
         e_state (fst (e_submit_pin net now6 pin6 (e_submit_pins net subs (p, w)))) = AWAITING_CODE \<and>
         net_log (client (snd (e_submit_pin net now6 pin6 (e_submit_pins net subs (p, w))))) =
           net_log (client (snd (e_submit_pins net subs (p, w)))) \<and>
         attempts_count (vstate (snd (e_submit_pin net now6 pin6 (e_submit_pins net subs (p, w))))) = 5"
proof -
  obtain p5 w5 where five: "e_submit_pins net subs (p, w) = (p5, w5)"
    by (cases "e_submit_pins net subs (p, w)")
  from assms(3,4,5) have budget: "attempts_count (vstate w) + int (length subs) \<le> max_attempts (vstate w)"
    by simp
  from e_submit_pins_rejected [OF assms(1,2,7,6) budget] five assms(3,4,5)
  have p5: "p5 = p" and att: "attempts_count (vstate w5) = 5" and mx: "max_attempts (vstate w5) = 5"
    by simp_all
  have full: "is_max_attempts_reached (vstate w5)"
    by (simp add: is_max_attempts_reached_def att mx)
  from e_submit_pin_exhausted [OF assms(1) full, where net = net and now = now6 and pin = pin6]
  show ?thesis
    by (simp add: five p5 att assms(1))
qed

text \<open>
  The claim as stated fails: after the fifth rejected PIN (five requests sent after the
  send) the panel is not in \<open>FAILED\<close>.
\<close>

theorem five_wrong_pins_counterexample:
  "e_state (fst pw_sent) = AWAITING_CODE \<and>
   attempts_count (vstate (snd pw_sent)) = 0 \<and>
   e_state (fst (e_submit_pins net_reject five_pins pw_sent)) \<noteq> FAILED \<and>
   length (net_log (client (snd (e_submit_pins net_reject five_pins pw_sent)))) =
     length (net_log (client (snd pw_sent))) + 5"
  by code_simp

theorem five_wrong_pins_witness:
  "e_state (fst (e_submit_pins net_reject five_pins pw_sent)) = AWAITING_CODE \<and>
   attempts_count (vstate (snd (e_submit_pins net_reject five_pins pw_sent))) = 5 \<and>
   e_state (fst (e_submit_pin net_reject 7 ''555555'' (e_submit_pins net_reject five_pins pw_sent))) =
     AWAITING_CODE \<and>
   net_log (client (snd (e_submit_pin net_reject 7 ''555555'' (e_submit_pins net_reject five_pins pw_sent)))) =
     net_log (client (snd (e_submit_pins net_reject five_pins pw_sent)))"
proof -
  have st: "e_state (fst pw_sent) = AWAITING_CODE" by code_simp
  have mid: "truthy (e_current_merchant_id (fst pw_sent))" by code_simp
  have a0: "attempts_count (vstate (snd pw_sent)) = 0" by code_simp
  have m5: "max_attempts (vstate (snd pw_sent)) = 5" by code_simp
  have len: "length five_pins = 5" by (simp add: five_pins_def)
  have valid: "list_all (\<lambda>sub. fst (validate_pin (snd sub))) five_pins" by code_simp
  have rej: "\<forall>req st d. req_url req = endpoint ''verify_pin'' \<longrightarrow> net_reject req \<noteq> NetOk st d"
    by (simp add: net_reject_def endpoint_def get_api_endpoints_def API_BASE_URL_def)
  show ?thesis
    using five_wrong_pins [OF st mid a0 m5 len valid rej, where ?now6.0 = 7 and ?pin6.0 = "''555555''"]
    by simp
qed


section \<open>The reconnect budget of the realtime channel\<close>

lemma terminal_errors_simps:
  "terminal_errors (m\<lparr>ws := s\<rparr>) = terminal_errors m"
  "terminal_errors (m\<lparr>reconnect_timer_active := b\<rparr>) = terminal_errors m"
  "terminal_errors (m\<lparr>is_connected := b\<rparr>) = terminal_errors m"
  "terminal_errors (m\<lparr>ping_timer_active := b\<rparr>) = terminal_errors m"
  "terminal_errors (m\<lparr>should_reconnect := b\<rparr>) = terminal_errors m"
  "terminal_errors (m\<lparr>reconnect_attempts := k\<rparr>) = terminal_errors m"
  "terminal_errors (m\<lparr>ws_user_id := u\<rparr>) = terminal_errors m"
  "terminal_errors (m\<lparr>ws_token := t\<rparr>) = terminal_errors m"
  "terminal_errors (m\<lparr>ws_emitted := ws_emitted m @ [Sig_connected]\<rparr>) = terminal_errors m"
  "terminal_errors (m\<lparr>ws_emitted := ws_emitted m @ [Sig_disconnected]\<rparr>) = terminal_errors m"
  "terminal_errors (m\<lparr>ws_emitted := ws_emitted m @ [Sig_disconnected, max_retries_error]\<rparr>) =
     terminal_errors m + 1"
  by (simp_all add: terminal_errors_def max_retries_error_def)

lemma ws_inv_connect_user:
  assumes "ws_quiet m0"
  shows "ws_inv (terminal_errors m0) (connect_user uid tok m0)"
  using assms
  by (simp add: ws_inv_def ws_quiet_def connect_user_def attempt_connect_def
        MAX_RECONNECT_ATTEMPTS_def terminal_errors_simps)

lemma on_disconnected_cases:
  "on_disconnected m =
     (if should_reconnect m \<and> reconnect_attempts m < 10
      then m\<lparr>is_connected := False, ping_timer_active := False,
             ws_emitted := ws_emitted m @ [Sig_disconnected],
             reconnect_attempts := reconnect_attempts m + 1, reconnect_timer_active := True\<rparr>
      else if reconnect_attempts m \<ge> 10
      then m\<lparr>is_connected := False, ping_timer_active := False,
             ws_emitted := ws_emitted m @ [Sig_disconnected, max_retries_error]\<rparr>
      else m\<lparr>is_connected := False, ping_timer_active := False,
             ws_emitted := ws_emitted m @ [Sig_disconnected]\<rparr>)"
  by (simp add: on_disconnected_def Let_def MAX_RECONNECT_ATTEMPTS_def)

lemma terminal_errors_on_disconnected:
  "terminal_errors (on_disconnected m) =
     (if \<not> (should_reconnect m \<and> reconnect_attempts m < 10) \<and> reconnect_attempts m \<ge> 10
      then terminal_errors m + 1 else terminal_errors m)"
  by (simp add: on_disconnected_cases terminal_errors_def max_retries_error_def)

lemma ws_inv_step:
  assumes "ws_inv n0 m" "ws_step e m = Some m1"
  shows "ws_inv n0 m1"
proof (cases e)
  case SocketOpened
  with assms show ?thesis
    by (auto simp: ws_inv_def on_connected_def terminal_errors_def max_retries_error_def
               MAX_RECONNECT_ATTEMPTS_def
             split: if_splits)
next
  case SocketClosed
  with assms have open_: "ws m \<noteq> Unconnected" and m1: "m1 = on_disconnected (m\<lparr>ws := Unconnected\<rparr>)"
    by (auto split: if_splits)
  from assms(1) open_ have notimer: "\<not> reconnect_timer_active m" and zero: "terminal_errors m = n0"
    and rng: "0 \<le> reconnect_attempts m" "reconnect_attempts m \<le> 10"
    by (auto simp: ws_inv_def MAX_RECONNECT_ATTEMPTS_def)
  show ?thesis
    unfolding m1 ws_inv_def terminal_errors_on_disconnected
    using notimer zero rng
    by (simp add: on_disconnected_cases terminal_errors_simps MAX_RECONNECT_ATTEMPTS_def)
next
  case ReconnectTimerFired
  with assms show ?thesis
    by (auto simp: ws_inv_def attempt_connect_def terminal_errors_simps split: if_splits)
next
  case UserDisconnect
  with assms show ?thesis
    by (auto simp: ws_inv_def disconnect_user_def Let_def terminal_errors_simps split: if_splits)
qed

lemma ws_inv_run:
  "ws_inv n0 m \<Longrightarrow> ws_run evs m = Some m1 \<Longrightarrow> ws_inv n0 m1"
proof (induction evs arbitrary: m)
  case Nil
  then show ?case by simp
next
  case (Cons e evs)
  then show ?case
    by (auto split: option.splits dest: ws_inv_step)
qed

lemma ws_quiet_step:
  assumes "ws_quiet m" "ws_step e m = Some m1"
  shows "ws_quiet m1 \<and> ws_emitted m1 = ws_emitted m \<and> reconnect_attempts m1 = reconnect_attempts m"
  using assms
  by (cases e) (auto simp: ws_quiet_def disconnect_user_def Let_def split: if_splits)

lemma ws_quiet_run:
  "ws_quiet m \<Longrightarrow> ws_run evs m = Some m1 \<Longrightarrow>
   ws_quiet m1 \<and> ws_emitted m1 = ws_emitted m \<and> reconnect_attempts m1 = reconnect_attempts m"
proof (induction evs arbitrary: m)
  case Nil
  then show ?case by simp
next
  case (Cons e evs)
  from Cons.prems obtain m2 where s: "ws_step e m = Some m2" and r: "ws_run evs m2 = Some m1"
    by (auto split: option.splits)
  from ws_quiet_step [OF Cons.prems(1) s] Cons.IH [OF _ r] show ?case by simp
qed

lemma last_failure:
  assumes "ws_inv n0 m" "reconnect_attempts m = 10" "ws m = Connecting"
  shows "ws_step SocketClosed m = Some (on_disconnected (m\<lparr>ws := Unconnected\<rparr>))"
    and "ws_quiet (on_disconnected (m\<lparr>ws := Unconnected\<rparr>))"
    and "\<not> is_connected (on_disconnected (m\<lparr>ws := Unconnected\<rparr>))"
    and "reconnect_attempts (on_disconnected (m\<lparr>ws := Unconnected\<rparr>)) = 10"
    and "ws_emitted (on_disconnected (m\<lparr>ws := Unconnected\<rparr>)) =
           ws_emitted m @ [Sig_disconnected, max_retries_error]"
    and "terminal_errors (on_disconnected (m\<lparr>ws := Unconnected\<rparr>)) = n0 + 1"
proof -
  from assms(1,3) have notimer: "\<not> reconnect_timer_active m" and zero: "terminal_errors m = n0"
    by (auto simp: ws_inv_def)
  show "ws_step SocketClosed m = Some (on_disconnected (m\<lparr>ws := Unconnected\<rparr>))"
    using assms(3) by simp
  show "ws_quiet (on_disconnected (m\<lparr>ws := Unconnected\<rparr>))"
    using assms(2) notimer by (simp add: on_disconnected_cases ws_quiet_def)
  show "\<not> is_connected (on_disconnected (m\<lparr>ws := Unconnected\<rparr>))"
    using assms(2) by (simp add: on_disconnected_cases)
  show "reconnect_attempts (on_disconnected (m\<lparr>ws := Unconnected\<rparr>)) = 10"
    using assms(2) by (simp add: on_disconnected_cases)
  show "ws_emitted (on_disconnected (m\<lparr>ws := Unconnected\<rparr>)) =
           ws_emitted m @ [Sig_disconnected, max_retries_error]"
    using assms(2) by (simp add: on_disconnected_cases)
  show "terminal_errors (on_disconnected (m\<lparr>ws := Unconnected\<rparr>)) = n0 + 1"
    using assms(2) zero by (simp add: terminal_errors_on_disconnected terminal_errors_simps)
qed

text \<open>
  C7. Take any execution of the disconnect/reconnect cycle that starts with
  \<open>connect_user\<close> on a manager whose socket is unconnected and whose reconnect timer is
  idle. In every state of it the reconnect-attempts counter is at most 10, and the
  terminal error has been emitted at most once more than before the cycle. When the 10th
  reconnect attempt is in flight (the counter is 10 and the socket is connecting), its
  failure leaves the manager disconnected with no reconnect timer running, emits
  \<open>disconnected\<close> and then the terminal error, and no event of the socket or the timer can
  follow: whatever happens later (only the user's disconnect can), the socket stays
  unconnected, no reconnect is scheduled, nothing more is emitted, and the terminal error
  has been emitted exactly once in the cycle.
\<close>

theorem reconnect_attempts_bounded:
  assumes "ws m0 = Unconnected" "\<not> reconnect_timer_active m0"
      and "ws_run evs (connect_user uid tok m0) = Some m"
  shows "reconnect_attempts m \<le> 10 \<and>
         terminal_errors m \<le> terminal_errors m0 + 1 \<and>
         (reconnect_attempts m = 10 \<and> ws m = Connecting \<longrightarrow>
            (\<exists>m1. ws_step SocketClosed m = Some m1 \<and>
                  \<not> is_connected m1 \<and> ws m1 = Unconnected \<and> \<not> reconnect_timer_active m1 \<and>
                  reconnect_attempts m1 = 10 \<and>
                  ws_emitted m1 = ws_emitted m @ [Sig_disconnected, max_retries_error] \<and>
                  terminal_errors m1 = terminal_errors m0 + 1 \<and>
                  ws_step SocketOpened m1 = None \<and> ws_step SocketClosed m1 = None \<and>
                  ws_step ReconnectTimerFired m1 = None \<and>
                  (\<forall>evs1 m2. ws_run evs1 m1 = Some m2 \<longrightarrow>
                     ws m2 = Unconnected \<and> \<not> reconnect_timer_active m2 \<and>
                     reconnect_attempts m2 = 10 \<and> ws_emitted m2 = ws_emitted m1 \<and>
                     terminal_errors m2 = terminal_errors m0 + 1)))"
proof -
  from assms(1,2) have "ws_quiet m0" by (simp add: ws_quiet_def)
  then have "ws_inv (terminal_errors m0) (connect_user uid tok m0)"
    by (rule ws_inv_connect_user)
  then have inv: "ws_inv (terminal_errors m0) m"
    using assms(3) by (rule ws_inv_run)
  then have bound: "reconnect_attempts m \<le> 10 \<and> terminal_errors m \<le> terminal_errors m0 + 1"
    by (simp add: ws_inv_def MAX_RECONNECT_ATTEMPTS_def)
  have last: "\<exists>m1. ws_step SocketClosed m = Some m1 \<and>
                  \<not> is_connected m1 \<and> ws m1 = Unconnected \<and> \<not> reconnect_timer_active m1 \<and>
                  reconnect_attempts m1 = 10 \<and>
                  ws_emitted m1 = ws_emitted m @ [Sig_disconnected, max_retries_error] \<and>
                  terminal_errors m1 = terminal_errors m0 + 1 \<and>
                  ws_step SocketOpened m1 = None \<and> ws_step SocketClosed m1 = None \<and>
                  ws_step ReconnectTimerFired m1 = None \<and>
                  (\<forall>evs1 m2. ws_run evs1 m1 = Some m2 \<longrightarrow>
                     ws m2 = Unconnected \<and> \<not> reconnect_timer_active m2 \<and>
                     reconnect_attempts m2 = 10 \<and> ws_emitted m2 = ws_emitted m1 \<and>
                     terminal_errors m2 = terminal_errors m0 + 1)"
    if ten: "reconnect_attempts m = 10" and conn: "ws m = Connecting"
  proof -
    let ?m1 = "on_disconnected (m\<lparr>ws := Unconnected\<rparr>)"
    note lf = last_failure [OF inv ten conn]
    have quiet: "ws_quiet ?m1" by (rule lf(2))
    have after: "ws m2 = Unconnected \<and> \<not> reconnect_timer_active m2 \<and>
                 reconnect_attempts m2 = 10 \<and> ws_emitted m2 = ws_emitted ?m1 \<and>
                 terminal_errors m2 = terminal_errors m0 + 1"
      if "ws_run evs1 ?m1 = Some m2" for evs1 m2
    proof -
      from ws_quiet_run [OF quiet that]
      have q: "ws_quiet m2" and e: "ws_emitted m2 = ws_emitted ?m1"
        and a: "reconnect_attempts m2 = reconnect_attempts ?m1"
        by simp_all
      have "terminal_errors m2 = terminal_errors ?m1"
        by (simp add: terminal_errors_def e)
      then show ?thesis
        using q e a lf(4,6) by (simp add: ws_quiet_def)
    qed
    have dead: "ws_step SocketOpened ?m1 = None \<and> ws_step SocketClosed ?m1 = None \<and>
                ws_step ReconnectTimerFired ?m1 = None"
      using quiet by (simp add: ws_quiet_def)
    show ?thesis
      using lf dead after quiet
      by (intro exI [of _ ?m1]) (simp add: ws_quiet_def)
  qed
  show ?thesis
    using bound last by blast
qed

theorem reconnect_attempts_bounded_witness:
  "ws_run ten_failures (connect_user 7 ''tok'' WebSocketManager_init) = Some m_tenth \<and>
   reconnect_attempts m_tenth = 10 \<and> ws m_tenth = Connecting \<and>
   (\<exists>m1. ws_step SocketClosed m_tenth = Some m1 \<and> ws m1 = Unconnected \<and>
         \<not> reconnect_timer_active m1 \<and>
         ws_emitted m1 = ws_emitted m_tenth @ [Sig_disconnected, max_retries_error] \<and>
         terminal_errors m1 = 1 \<and> ws_step ReconnectTimerFired m1 = None)"
proof -
  have a: "ws WebSocketManager_init = Unconnected"
    and b: "\<not> reconnect_timer_active WebSocketManager_init"
    and z: "terminal_errors WebSocketManager_init = 0"
    by (simp_all add: WebSocketManager_init_def terminal_errors_def)
  have r: "ws_run ten_failures (connect_user 7 ''tok'' WebSocketManager_init) = Some m_tenth"
    by code_simp
  have t: "reconnect_attempts m_tenth = 10" and c: "ws m_tenth = Connecting"
    by (simp_all add: m_tenth_def)
  from reconnect_attempts_bounded [OF a b r] t c z
  show ?thesis
    using r by auto
qed

end
